theory Spec2Isabelle
  imports Main "HOL-Library.Word"
begin

section \<open>Data model of net/cert/pki/parsed_certificate.cc\<close>

text \<open>
  \<open>der::Input\<close> is a span of bytes; \<open>CRYPTO_BUFFER\<close> owns bytes. Both are byte lists here.
\<close>

type_synonym Input = "8 word list"

text \<open>
  The error identifiers that \<open>DEFINE_CERT_ERROR_ID\<close> declares at the top of the file, in the
  order of the file. \<open>kCollaboratorError\<close> stands for an identifier that a collaborator defined
  in another file adds to the sink.
\<close>

datatype CertErrorId =
    kFailedParsingCertificate
  | kFailedParsingTbsCertificate
  | kFailedParsingSignatureAlgorithm
  | kFailedReadingIssuerOrSubject
  | kFailedNormalizingSubject
  | kFailedNormalizingIssuer
  | kFailedParsingExtensions
  | kFailedParsingBasicConstraints
  | kFailedParsingKeyUsage
  | kFailedParsingEku
  | kFailedParsingSubjectAltName
  | kSubjectAltNameNotCritical
  | kFailedParsingNameConstraints
  | kFailedParsingAia
  | kFailedParsingPolicies
  | kFailedParsingPolicyConstraints
  | kFailedParsingPolicyMappings
  | kFailedParsingInhibitAnyPolicy
  | kFailedParsingAuthorityKeyIdentifier
  | kFailedParsingSubjectKeyIdentifier
  | kCollaboratorError string

text \<open>
  Modelled from the spec: \<open>CertErrors\<close> (net/cert/pki/cert_errors.h is not among the sources).
  It is the error-accumulation sink: an ordered sequence to which \<open>AddError\<close> appends one
  identifier.
\<close>

type_synonym CertErrors = "CertErrorId list"

definition AddError :: "CertErrors \<Rightarrow> CertErrorId \<Rightarrow> CertErrors" where
  "AddError errors error_id = errors @ [error_id]"

text \<open>
  Modelled from the spec: \<open>ParsedExtension\<close> (the spec's ExtensionEntry), declared in a header
  that is not among the sources. The code reads its \<open>value\<close> and \<open>critical\<close> members;
  \<open>ParsedExtension()\<close> is the empty value with \<open>critical\<close> false.
\<close>

record ParsedExtension =
  "value" :: Input
  critical :: bool

definition ParsedExtension_default :: ParsedExtension where
  "ParsedExtension_default = \<lparr>value = [], critical = False\<rparr>"

text \<open>
  \<open>ParsedTbsCertificate\<close>: the members that \<open>Create\<close> reads. The extensions region is optional.
\<close>

record ParsedTbsCertificate =
  subject_tlv :: Input
  issuer_tlv :: Input
  extensions_tlv :: "Input option"

definition ParsedTbsCertificate_default :: ParsedTbsCertificate where
  "ParsedTbsCertificate_default = \<lparr>subject_tlv = [], issuer_tlv = [], extensions_tlv = None\<rparr>"

text \<open>
  The members of \<open>ParsedCertificate\<close> that the file assigns, under their names without the
  trailing underscore (\<open>tbs_\<close> is \<open>tbs\<close>, \<open>extensions_\<close> is \<open>extensions\<close>). A typed value
  that a collaborator decodes (a bit string, a signature algorithm, basic constraints, ...) has
  a type declared outside the sources; the orchestrator only stores it, so all of them are the
  type parameter \<open>'v\<close>, and \<open>None\<close> is the default-constructed member that no parser has written.
  \<open>subject_alt_names_\<close> and \<open>name_constraints_\<close> are owning pointers, \<open>subject_key_identifier_\<close>
  and \<open>authority_key_identifier_\<close> are optionals: \<open>None\<close> is the null pointer or the empty
  optional. \<open>extensions_\<close> is the \<open>std::map\<close> from identifier bytes to extension.
\<close>

record 'v ParsedCertificate =
  cert_data :: Input
  cert :: Input
  tbs_certificate_tlv :: Input
  signature_algorithm_tlv :: Input
  signature_value :: "'v option"
  tbs :: ParsedTbsCertificate
  signature_algorithm :: "'v option"
  normalized_subject :: Input
  normalized_issuer :: Input
  extensions :: "Input \<rightharpoonup> ParsedExtension"
  has_basic_constraints :: bool
  basic_constraints :: "'v option"
  has_key_usage :: bool
  key_usage :: "'v option"
  has_extended_key_usage :: bool
  extended_key_usage :: "'v option"
  subject_alt_names_extension :: ParsedExtension
  subject_alt_names :: "'v option"
  name_constraints :: "'v option"
  has_authority_info_access :: bool
  authority_info_access_extension :: ParsedExtension
  ca_issuers_uris :: "'v option"
  ocsp_uris :: "'v option"
  has_policy_oids :: bool
  policy_oids :: "'v option"
  has_policy_constraints :: bool
  policy_constraints :: "'v option"
  has_policy_mappings :: bool
  policy_mappings :: "'v option"
  has_inhibit_any_policy :: bool
  inhibit_any_policy :: "'v option"
  subject_key_identifier :: "'v option"
  authority_key_identifier :: "'v option"

text \<open>\<open>ParsedCertificate::ParsedCertificate() = default\<close>.\<close>

definition ParsedCertificate_default :: "'v ParsedCertificate" where
  "ParsedCertificate_default =
     \<lparr>cert_data = [], cert = [], tbs_certificate_tlv = [], signature_algorithm_tlv = [],
      signature_value = None, tbs = ParsedTbsCertificate_default,
      signature_algorithm = None, normalized_subject = [], normalized_issuer = [],
      extensions = Map.empty,
      has_basic_constraints = False, basic_constraints = None,
      has_key_usage = False, key_usage = None,
      has_extended_key_usage = False, extended_key_usage = None,
      subject_alt_names_extension = ParsedExtension_default, subject_alt_names = None,
      name_constraints = None,
      has_authority_info_access = False,
      authority_info_access_extension = ParsedExtension_default,
      ca_issuers_uris = None, ocsp_uris = None,
      has_policy_oids = False, policy_oids = None,
      has_policy_constraints = False, policy_constraints = None,
      has_policy_mappings = False, policy_mappings = None,
      has_inhibit_any_policy = False, inhibit_any_policy = None,
      subject_key_identifier = None, authority_key_identifier = None\<rparr>"

section \<open>The accessor\<close>

text \<open>
  \<open>ParsedCertificate::GetExtension\<close>. The out-parameter \<open>parsed_extension\<close> is passed in and its
  value after the call is returned beside the boolean.
\<close>

definition GetExtension ::
  "'v ParsedCertificate \<Rightarrow> Input \<Rightarrow> ParsedExtension \<Rightarrow> bool \<times> ParsedExtension" where
  "GetExtension this extension_oid parsed_extension =
     (if extensions_tlv (tbs this) = None then (False, parsed_extension)
      else (case extensions this extension_oid of
              None \<Rightarrow> (False, ParsedExtension_default)
            | Some found \<Rightarrow> (True, found)))"

section \<open>Collaborators\<close>

text \<open>
  The functions that \<open>Create\<close> calls and the identifier constants it looks up are declared in
  files that are not among the sources (the DER reader, the TBS decoder, the name normalizer,
  the extension table builder, one sub-parser per recognized extension). They are parameters:
  a record with one member per function or constant, under its name in the code.

  A function that returns \<open>bool\<close> and writes an out-parameter returns an option. A function
  that is handed the sink \<open>errors\<close> returns, beside its result, the identifiers it appends
  (the sink is append-only, see \<open>CertErrors\<close>). \<open>ParseExtensions\<close> and the sub-parsers called
  without \<open>errors\<close> cannot reach the sink. \<open>ReadTag_kSequence\<close> is
  \<open>der::Parser::ReadTag(der::kSequence, value)\<close> on a fresh parser: the value read and the bytes
  that remain. \<open>'o\<close> is \<open>ParseCertificateOptions\<close>.
\<close>

record ('v, 'o) Collaborators =
  ParseCertificate :: "Input \<Rightarrow> (Input \<times> Input \<times> 'v) option \<times> CertErrors"
  ParseTbsCertificate :: "Input \<Rightarrow> 'o \<Rightarrow> ParsedTbsCertificate option \<times> CertErrors"
  ParseSignatureAlgorithm :: "Input \<Rightarrow> 'v option \<times> CertErrors"
  ReadTag_kSequence :: "Input \<Rightarrow> (Input \<times> Input) option"
  NormalizeName :: "Input \<Rightarrow> Input option \<times> CertErrors"
  ParseExtensions :: "Input \<Rightarrow> (Input \<rightharpoonup> ParsedExtension) option"
  ParseBasicConstraints :: "Input \<Rightarrow> 'v option"
  ParseKeyUsage :: "Input \<Rightarrow> 'v option"
  ParseEKUExtension :: "Input \<Rightarrow> 'v option"
  GeneralNames_Create :: "Input \<Rightarrow> 'v option \<times> CertErrors"
  NameConstraints_Create :: "Input \<Rightarrow> bool \<Rightarrow> 'v option \<times> CertErrors"
  ParseAuthorityInfoAccessURIs :: "Input \<Rightarrow> ('v \<times> 'v) option"
  ParseCertificatePoliciesExtensionOids :: "Input \<Rightarrow> bool \<Rightarrow> 'v option \<times> CertErrors"
  ParsePolicyConstraints :: "Input \<Rightarrow> 'v option"
  ParsePolicyMappings :: "Input \<Rightarrow> 'v option"
  ParseInhibitAnyPolicy :: "Input \<Rightarrow> 'v option"
  ParseSubjectKeyIdentifier :: "Input \<Rightarrow> 'v option"
  ParseAuthorityKeyIdentifier :: "Input \<Rightarrow> 'v option"
  kBasicConstraintsOid :: Input
  kKeyUsageOid :: Input
  kExtKeyUsageOid :: Input
  kSubjectAltNameOid :: Input
  kNameConstraintsOid :: Input
  kAuthorityInfoAccessOid :: Input
  kCertificatePoliciesOid :: Input
  kPolicyConstraintsOid :: Input
  kPolicyMappingsOid :: Input
  kInhibitAnyPolicyOid :: Input
  kSubjectKeyIdentifierOid :: Input
  kAuthorityKeyIdentifierOid :: Input

text \<open>
  \<open>GetSequenceValue\<close> of the anonymous namespace:
  \<open>parser.ReadTag(der::kSequence, value) && !parser.HasMore()\<close>.
\<close>

definition GetSequenceValue :: "('v, 'o) Collaborators \<Rightarrow> Input \<Rightarrow> Input option" where
  "GetSequenceValue env tlv =
     (case ReadTag_kSequence env tlv of
        None \<Rightarrow> None
      | Some (seq_value, remaining) \<Rightarrow> if remaining \<noteq> [] then None else Some seq_value)"

section \<open>\<open>ParsedCertificate::Create\<close>\<close>

text \<open>
  The variables that \<open>Create\<close> updates: the object under construction, the sink, and the
  locals \<open>subject_value\<close>, \<open>issuer_value\<close> and \<open>extension\<close>. Each \<open>if\<close> block of the function is
  one step on this state; a step that executes \<open>return nullptr\<close> yields \<open>Inl\<close> of the sink as
  it is at that moment, and no object.
\<close>

record 'v CreateState =
  result :: "'v ParsedCertificate"
  errors :: CertErrors
  subject_value :: Input
  issuer_value :: Input
  extension :: ParsedExtension

type_synonym 'v CreateStep = "'v CreateState \<Rightarrow> CertErrors + 'v CreateState"

text \<open>Steps run in sequence; the first \<open>return nullptr\<close> ends the run.\<close>

fun run_steps :: "('s \<Rightarrow> 'e + 's) list \<Rightarrow> 's \<Rightarrow> 'e + 's" where
  "run_steps [] st = Inr st"
| "run_steps (step # steps) st =
     (case step st of Inl es \<Rightarrow> Inl es | Inr st' \<Rightarrow> run_steps steps st')"

text \<open>Lines 95 to 134: envelope, TBS, signature algorithm, subject and issuer.\<close>

definition Create_ParseCertificate :: "('v, 'o) Collaborators \<Rightarrow> 'v CreateStep" where
  "Create_ParseCertificate env st =
     (case ParseCertificate env (cert (result st)) of
        (None, added) \<Rightarrow> Inl (AddError (errors st @ added) kFailedParsingCertificate)
      | (Some (tbs_tlv, sigalg_tlv, sig_value), added) \<Rightarrow>
          Inr (st\<lparr>result := (result st)\<lparr>tbs_certificate_tlv := tbs_tlv,
                                          signature_algorithm_tlv := sigalg_tlv,
                                          signature_value := Some sig_value\<rparr>,
                  errors := errors st @ added\<rparr>))"

definition Create_ParseTbsCertificate :: "('v, 'o) Collaborators \<Rightarrow> 'o \<Rightarrow> 'v CreateStep" where
  "Create_ParseTbsCertificate env options st =
     (case ParseTbsCertificate env (tbs_certificate_tlv (result st)) options of
        (None, added) \<Rightarrow> Inl (AddError (errors st @ added) kFailedParsingTbsCertificate)
      | (Some parsed_tbs, added) \<Rightarrow>
          Inr (st\<lparr>result := (result st)\<lparr>tbs := parsed_tbs\<rparr>, errors := errors st @ added\<rparr>))"

definition Create_ParseSignatureAlgorithm :: "('v, 'o) Collaborators \<Rightarrow> 'v CreateStep" where
  "Create_ParseSignatureAlgorithm env st =
     (case ParseSignatureAlgorithm env (signature_algorithm_tlv (result st)) of
        (None, added) \<Rightarrow> Inl (AddError (errors st @ added) kFailedParsingSignatureAlgorithm)
      | (Some sigalg, added) \<Rightarrow>
          Inr (st\<lparr>result := (result st)\<lparr>signature_algorithm := Some sigalg\<rparr>,
                  errors := errors st @ added\<rparr>))"

definition Create_subject :: "('v, 'o) Collaborators \<Rightarrow> 'v CreateStep" where
  "Create_subject env st =
     (case GetSequenceValue env (subject_tlv (tbs (result st))) of
        None \<Rightarrow> Inl (AddError (errors st) kFailedReadingIssuerOrSubject)
      | Some seq_value \<Rightarrow>
          (case NormalizeName env seq_value of
             (None, added) \<Rightarrow> Inl (AddError (errors st @ added) kFailedNormalizingSubject)
           | (Some normalized, added) \<Rightarrow>
               Inr (st\<lparr>result := (result st)\<lparr>normalized_subject := normalized\<rparr>,
                       errors := errors st @ added,
                       subject_value := seq_value\<rparr>)))"

definition Create_issuer :: "('v, 'o) Collaborators \<Rightarrow> 'v CreateStep" where
  "Create_issuer env st =
     (case GetSequenceValue env (issuer_tlv (tbs (result st))) of
        None \<Rightarrow> Inl (AddError (errors st) kFailedReadingIssuerOrSubject)
      | Some seq_value \<Rightarrow>
          (case NormalizeName env seq_value of
             (None, added) \<Rightarrow> Inl (AddError (errors st @ added) kFailedNormalizingIssuer)
           | (Some normalized, added) \<Rightarrow>
               Inr (st\<lparr>result := (result st)\<lparr>normalized_issuer := normalized\<rparr>,
                       errors := errors st @ added,
                       issuer_value := seq_value\<rparr>)))"

text \<open>
  Lines 146 to 282: the twelve blocks inside \<open>if (result->tbs_.extensions_tlv)\<close>, one
  definition per block, named after the block's comment. A block that sets a \<open>has_\<close> member
  before it calls the sub-parser and then returns \<open>nullptr\<close> drops the object, so the member is
  written in the branch that goes on.
\<close>

text \<open>Basic constraints.\<close>

definition Create_BasicConstraints :: "('v, 'o) Collaborators \<Rightarrow> 'v CreateStep" where
  "Create_BasicConstraints env st =
     (case GetExtension (result st) (kBasicConstraintsOid env) (extension st) of
        (False, ext) \<Rightarrow> Inr (st\<lparr>extension := ext\<rparr>)
      | (True, ext) \<Rightarrow>
          (case ParseBasicConstraints env (value ext) of
             None \<Rightarrow> Inl (AddError (errors st) kFailedParsingBasicConstraints)
           | Some parsed \<Rightarrow>
               Inr (st\<lparr>result := (result st)\<lparr>has_basic_constraints := True, basic_constraints := Some parsed\<rparr>,
                       extension := ext\<rparr>)))"

text \<open>Key Usage.\<close>

definition Create_KeyUsage :: "('v, 'o) Collaborators \<Rightarrow> 'v CreateStep" where
  "Create_KeyUsage env st =
     (case GetExtension (result st) (kKeyUsageOid env) (extension st) of
        (False, ext) \<Rightarrow> Inr (st\<lparr>extension := ext\<rparr>)
      | (True, ext) \<Rightarrow>
          (case ParseKeyUsage env (value ext) of
             None \<Rightarrow> Inl (AddError (errors st) kFailedParsingKeyUsage)
           | Some parsed \<Rightarrow>
               Inr (st\<lparr>result := (result st)\<lparr>has_key_usage := True, key_usage := Some parsed\<rparr>,
                       extension := ext\<rparr>)))"

text \<open>Extended Key Usage.\<close>

definition Create_ExtendedKeyUsage :: "('v, 'o) Collaborators \<Rightarrow> 'v CreateStep" where
  "Create_ExtendedKeyUsage env st =
     (case GetExtension (result st) (kExtKeyUsageOid env) (extension st) of
        (False, ext) \<Rightarrow> Inr (st\<lparr>extension := ext\<rparr>)
      | (True, ext) \<Rightarrow>
          (case ParseEKUExtension env (value ext) of
             None \<Rightarrow> Inl (AddError (errors st) kFailedParsingEku)
           | Some parsed \<Rightarrow>
               Inr (st\<lparr>result := (result st)\<lparr>has_extended_key_usage := True, extended_key_usage := Some parsed\<rparr>,
                       extension := ext\<rparr>)))"

text \<open>
  Subject alternative name. The out-parameter of \<open>GetExtension\<close> is the member
  \<open>subject_alt_names_extension_\<close>. The test of the subject and of the criticality flag is inside
  the block, after \<open>GeneralNames::Create\<close> has succeeded.
\<close>

definition Create_SubjectAltName :: "('v, 'o) Collaborators \<Rightarrow> 'v CreateStep" where
  "Create_SubjectAltName env st =
     (case GetExtension (result st) (kSubjectAltNameOid env)
             (subject_alt_names_extension (result st)) of
        (False, ext) \<Rightarrow>
          Inr (st\<lparr>result := (result st)\<lparr>subject_alt_names_extension := ext\<rparr>\<rparr>)
      | (True, ext) \<Rightarrow>
          (case GeneralNames_Create env (value ext) of
             (None, added) \<Rightarrow> Inl (AddError (errors st @ added) kFailedParsingSubjectAltName)
           | (Some names, added) \<Rightarrow>
               if length (subject_value st) = 0 \<and> \<not> critical ext
               then Inl (AddError (errors st @ added) kSubjectAltNameNotCritical)
               else Inr (st\<lparr>result := (result st)\<lparr>subject_alt_names_extension := ext,
                                                    subject_alt_names := Some names\<rparr>,
                            errors := errors st @ added\<rparr>)))"

text \<open>Name constraints. The sub-parser is handed the criticality flag and the sink.\<close>

definition Create_NameConstraints :: "('v, 'o) Collaborators \<Rightarrow> 'v CreateStep" where
  "Create_NameConstraints env st =
     (case GetExtension (result st) (kNameConstraintsOid env) (extension st) of
        (False, ext) \<Rightarrow> Inr (st\<lparr>extension := ext\<rparr>)
      | (True, ext) \<Rightarrow>
          (case NameConstraints_Create env (value ext) (critical ext) of
             (None, added) \<Rightarrow> Inl (AddError (errors st @ added) kFailedParsingNameConstraints)
           | (Some constraints, added) \<Rightarrow>
               Inr (st\<lparr>result := (result st)\<lparr>name_constraints := Some constraints\<rparr>,
                       errors := errors st @ added,
                       extension := ext\<rparr>)))"

text \<open>
  Authority information access. The out-parameter of \<open>GetExtension\<close> is the member
  \<open>authority_info_access_extension_\<close>.
\<close>

definition Create_AuthorityInfoAccess :: "('v, 'o) Collaborators \<Rightarrow> 'v CreateStep" where
  "Create_AuthorityInfoAccess env st =
     (case GetExtension (result st) (kAuthorityInfoAccessOid env)
             (authority_info_access_extension (result st)) of
        (False, ext) \<Rightarrow>
          Inr (st\<lparr>result := (result st)\<lparr>authority_info_access_extension := ext\<rparr>\<rparr>)
      | (True, ext) \<Rightarrow>
          (case ParseAuthorityInfoAccessURIs env (value ext) of
             None \<Rightarrow> Inl (AddError (errors st) kFailedParsingAia)
           | Some (ca_issuers, ocsp) \<Rightarrow>
               Inr (st\<lparr>result := (result st)\<lparr>authority_info_access_extension := ext,
                                               has_authority_info_access := True,
                                               ca_issuers_uris := Some ca_issuers,
                                               ocsp_uris := Some ocsp\<rparr>\<rparr>)))"

text \<open>Policies. \<open>fail_parsing_unknown_qualifier_oids\<close> is \<open>false\<close>; the sub-parser is handed the sink.\<close>

definition Create_Policies :: "('v, 'o) Collaborators \<Rightarrow> 'v CreateStep" where
  "Create_Policies env st =
     (case GetExtension (result st) (kCertificatePoliciesOid env) (extension st) of
        (False, ext) \<Rightarrow> Inr (st\<lparr>extension := ext\<rparr>)
      | (True, ext) \<Rightarrow>
          (case ParseCertificatePoliciesExtensionOids env (value ext) False of
             (None, added) \<Rightarrow> Inl (AddError (errors st @ added) kFailedParsingPolicies)
           | (Some oids, added) \<Rightarrow>
               Inr (st\<lparr>result := (result st)\<lparr>has_policy_oids := True,
                                               policy_oids := Some oids\<rparr>,
                       errors := errors st @ added,
                       extension := ext\<rparr>)))"

text \<open>Policy constraints.\<close>

definition Create_PolicyConstraints :: "('v, 'o) Collaborators \<Rightarrow> 'v CreateStep" where
  "Create_PolicyConstraints env st =
     (case GetExtension (result st) (kPolicyConstraintsOid env) (extension st) of
        (False, ext) \<Rightarrow> Inr (st\<lparr>extension := ext\<rparr>)
      | (True, ext) \<Rightarrow>
          (case ParsePolicyConstraints env (value ext) of
             None \<Rightarrow> Inl (AddError (errors st) kFailedParsingPolicyConstraints)
           | Some parsed \<Rightarrow>
               Inr (st\<lparr>result := (result st)\<lparr>has_policy_constraints := True, policy_constraints := Some parsed\<rparr>,
                       extension := ext\<rparr>)))"

text \<open>Policy mappings.\<close>

definition Create_PolicyMappings :: "('v, 'o) Collaborators \<Rightarrow> 'v CreateStep" where
  "Create_PolicyMappings env st =
     (case GetExtension (result st) (kPolicyMappingsOid env) (extension st) of
        (False, ext) \<Rightarrow> Inr (st\<lparr>extension := ext\<rparr>)
      | (True, ext) \<Rightarrow>
          (case ParsePolicyMappings env (value ext) of
             None \<Rightarrow> Inl (AddError (errors st) kFailedParsingPolicyMappings)
           | Some parsed \<Rightarrow>
               Inr (st\<lparr>result := (result st)\<lparr>has_policy_mappings := True, policy_mappings := Some parsed\<rparr>,
                       extension := ext\<rparr>)))"

text \<open>Inhibit Any Policy.\<close>

definition Create_InhibitAnyPolicy :: "('v, 'o) Collaborators \<Rightarrow> 'v CreateStep" where
  "Create_InhibitAnyPolicy env st =
     (case GetExtension (result st) (kInhibitAnyPolicyOid env) (extension st) of
        (False, ext) \<Rightarrow> Inr (st\<lparr>extension := ext\<rparr>)
      | (True, ext) \<Rightarrow>
          (case ParseInhibitAnyPolicy env (value ext) of
             None \<Rightarrow> Inl (AddError (errors st) kFailedParsingInhibitAnyPolicy)
           | Some parsed \<Rightarrow>
               Inr (st\<lparr>result := (result st)\<lparr>has_inhibit_any_policy := True, inhibit_any_policy := Some parsed\<rparr>,
                       extension := ext\<rparr>)))"

text \<open>Subject Key Identifier.\<close>

definition Create_SubjectKeyIdentifier :: "('v, 'o) Collaborators \<Rightarrow> 'v CreateStep" where
  "Create_SubjectKeyIdentifier env st =
     (case GetExtension (result st) (kSubjectKeyIdentifierOid env) (extension st) of
        (False, ext) \<Rightarrow> Inr (st\<lparr>extension := ext\<rparr>)
      | (True, ext) \<Rightarrow>
          (case ParseSubjectKeyIdentifier env (value ext) of
             None \<Rightarrow> Inl (AddError (errors st) kFailedParsingSubjectKeyIdentifier)
           | Some parsed \<Rightarrow>
               Inr (st\<lparr>result := (result st)\<lparr>subject_key_identifier := Some parsed\<rparr>,
                       extension := ext\<rparr>)))"

text \<open>Authority Key Identifier.\<close>

definition Create_AuthorityKeyIdentifier :: "('v, 'o) Collaborators \<Rightarrow> 'v CreateStep" where
  "Create_AuthorityKeyIdentifier env st =
     (case GetExtension (result st) (kAuthorityKeyIdentifierOid env) (extension st) of
        (False, ext) \<Rightarrow> Inr (st\<lparr>extension := ext\<rparr>)
      | (True, ext) \<Rightarrow>
          (case ParseAuthorityKeyIdentifier env (value ext) of
             None \<Rightarrow> Inl (AddError (errors st) kFailedParsingAuthorityKeyIdentifier)
           | Some parsed \<Rightarrow>
               Inr (st\<lparr>result := (result st)\<lparr>authority_key_identifier := Some parsed\<rparr>,
                       extension := ext\<rparr>)))"

text \<open>The twelve blocks in the order of the source text.\<close>

definition extension_steps :: "('v, 'o) Collaborators \<Rightarrow> 'v CreateStep list" where
  "extension_steps env =
     [Create_BasicConstraints env, Create_KeyUsage env, Create_ExtendedKeyUsage env,
      Create_SubjectAltName env, Create_NameConstraints env, Create_AuthorityInfoAccess env,
      Create_Policies env, Create_PolicyConstraints env, Create_PolicyMappings env,
      Create_InhibitAnyPolicy env, Create_SubjectKeyIdentifier env,
      Create_AuthorityKeyIdentifier env]"

text \<open>
  Lines 137 to 283: \<open>if (result->tbs_.extensions_tlv)\<close>, \<open>ParseExtensions\<close> into
  \<open>result->extensions_\<close>, the declaration of the local \<open>extension\<close>, then the blocks.
\<close>

definition Create_extensions :: "('v, 'o) Collaborators \<Rightarrow> 'v CreateStep" where
  "Create_extensions env st =
     (case extensions_tlv (tbs (result st)) of
        None \<Rightarrow> Inr st
      | Some tlv \<Rightarrow>
          (case ParseExtensions env tlv of
             None \<Rightarrow> Inl (AddError (errors st) kFailedParsingExtensions)
           | Some table \<Rightarrow>
               run_steps (extension_steps env)
                 (st\<lparr>result := (result st)\<lparr>extensions := table\<rparr>,
                     extension := ParsedExtension_default\<rparr>)))"

text \<open>
  The body of \<open>Create\<close> once \<open>errors\<close> points to a sink: the object is default-constructed,
  \<open>cert_data_\<close> takes the buffer and \<open>cert_\<close> views it, then the steps run. The outcome is the
  returned pointer (\<open>None\<close> is \<open>nullptr\<close>) and the sink after the call.
\<close>

definition Create_initial :: "Input \<Rightarrow> CertErrors \<Rightarrow> 'v CreateState" where
  "Create_initial backing_data sink =
     \<lparr>result = ParsedCertificate_default\<lparr>cert_data := backing_data, cert := backing_data\<rparr>,
      errors = sink, subject_value = [], issuer_value = [],
      extension = ParsedExtension_default\<rparr>"

definition Create_steps :: "('v, 'o) Collaborators \<Rightarrow> 'o \<Rightarrow> 'v CreateStep list" where
  "Create_steps env options =
     [Create_ParseCertificate env, Create_ParseTbsCertificate env options,
      Create_ParseSignatureAlgorithm env, Create_subject env, Create_issuer env,
      Create_extensions env]"

definition Create_body ::
  "('v, 'o) Collaborators \<Rightarrow> Input \<Rightarrow> 'o \<Rightarrow> CertErrors
     \<Rightarrow> 'v ParsedCertificate option \<times> CertErrors" where
  "Create_body env backing_data options sink =
     (case run_steps (Create_steps env options) (Create_initial backing_data sink) of
        Inl sink' \<Rightarrow> (None, sink')
      | Inr st \<Rightarrow> (Some (result st), errors st))"

text \<open>
  \<open>Create\<close>. The parameter \<open>errors\<close> is a pointer that may be null (\<open>None\<close>): then the local
  \<open>unused_errors\<close> is the sink and the caller sees none. The second component is the caller's
  sink after the call.
\<close>

definition unused_errors :: CertErrors where
  "unused_errors = []"

definition Create ::
  "('v, 'o) Collaborators \<Rightarrow> Input \<Rightarrow> 'o \<Rightarrow> CertErrors option
     \<Rightarrow> 'v ParsedCertificate option \<times> CertErrors option" where
  "Create env backing_data options errors_ptr =
     (case errors_ptr of
        None \<Rightarrow> (fst (Create_body env backing_data options unused_errors), None)
      | Some sink \<Rightarrow>
          (case Create_body env backing_data options sink of
             (created, sink') \<Rightarrow> (created, Some sink')))"

text \<open>
  \<open>CreateAndAddToVector\<close>: the boolean returned, the caller's vector and the caller's sink
  after the call.
\<close>

definition CreateAndAddToVector ::
  "('v, 'o) Collaborators \<Rightarrow> Input \<Rightarrow> 'o \<Rightarrow> 'v ParsedCertificate list \<Rightarrow> CertErrors option
     \<Rightarrow> bool \<times> 'v ParsedCertificate list \<times> CertErrors option" where
  "CreateAndAddToVector env cert_data_arg options chain errors_ptr =
     (case Create env cert_data_arg options errors_ptr of
        (None, sink) \<Rightarrow> (False, chain, sink)
      | (Some created, sink) \<Rightarrow> (True, chain @ [created], sink))"

section \<open>The dispatch as a table\<close>

text \<open>
  The recognized extensions: one constructor per block of \<open>Create\<close>, named after the block.
  There are twelve blocks in the function.
\<close>

datatype KnownExtension =
    BasicConstraints | KeyUsage | ExtendedKeyUsage | SubjectAltName | NameConstraints
  | AuthorityInfoAccess | Policies | PolicyConstraints | PolicyMappings | InhibitAnyPolicy
  | SubjectKeyIdentifier | AuthorityKeyIdentifier

text \<open>The order in which the blocks stand in the source text.\<close>

definition dispatch_order :: "KnownExtension list" where
  "dispatch_order =
     [BasicConstraints, KeyUsage, ExtendedKeyUsage, SubjectAltName, NameConstraints,
      AuthorityInfoAccess, Policies, PolicyConstraints, PolicyMappings, InhibitAnyPolicy,
      SubjectKeyIdentifier, AuthorityKeyIdentifier]"

text \<open>For each block: the identifier it looks up, the error it adds, its sub-parser, itself.\<close>

fun oid_of :: "('v, 'o) Collaborators \<Rightarrow> KnownExtension \<Rightarrow> Input" where
  "oid_of env BasicConstraints = kBasicConstraintsOid env"
| "oid_of env KeyUsage = kKeyUsageOid env"
| "oid_of env ExtendedKeyUsage = kExtKeyUsageOid env"
| "oid_of env SubjectAltName = kSubjectAltNameOid env"
| "oid_of env NameConstraints = kNameConstraintsOid env"
| "oid_of env AuthorityInfoAccess = kAuthorityInfoAccessOid env"
| "oid_of env Policies = kCertificatePoliciesOid env"
| "oid_of env PolicyConstraints = kPolicyConstraintsOid env"
| "oid_of env PolicyMappings = kPolicyMappingsOid env"
| "oid_of env InhibitAnyPolicy = kInhibitAnyPolicyOid env"
| "oid_of env SubjectKeyIdentifier = kSubjectKeyIdentifierOid env"
| "oid_of env AuthorityKeyIdentifier = kAuthorityKeyIdentifierOid env"

fun error_of :: "KnownExtension \<Rightarrow> CertErrorId" where
  "error_of BasicConstraints = kFailedParsingBasicConstraints"
| "error_of KeyUsage = kFailedParsingKeyUsage"
| "error_of ExtendedKeyUsage = kFailedParsingEku"
| "error_of SubjectAltName = kFailedParsingSubjectAltName"
| "error_of NameConstraints = kFailedParsingNameConstraints"
| "error_of AuthorityInfoAccess = kFailedParsingAia"
| "error_of Policies = kFailedParsingPolicies"
| "error_of PolicyConstraints = kFailedParsingPolicyConstraints"
| "error_of PolicyMappings = kFailedParsingPolicyMappings"
| "error_of InhibitAnyPolicy = kFailedParsingInhibitAnyPolicy"
| "error_of SubjectKeyIdentifier = kFailedParsingSubjectKeyIdentifier"
| "error_of AuthorityKeyIdentifier = kFailedParsingAuthorityKeyIdentifier"

fun sub_parser_fails :: "('v, 'o) Collaborators \<Rightarrow> KnownExtension \<Rightarrow> ParsedExtension \<Rightarrow> bool" where
  "sub_parser_fails env BasicConstraints ext = (ParseBasicConstraints env (value ext) = None)"
| "sub_parser_fails env KeyUsage ext = (ParseKeyUsage env (value ext) = None)"
| "sub_parser_fails env ExtendedKeyUsage ext = (ParseEKUExtension env (value ext) = None)"
| "sub_parser_fails env SubjectAltName ext = (fst (GeneralNames_Create env (value ext)) = None)"
| "sub_parser_fails env NameConstraints ext =
     (fst (NameConstraints_Create env (value ext) (critical ext)) = None)"
| "sub_parser_fails env AuthorityInfoAccess ext =
     (ParseAuthorityInfoAccessURIs env (value ext) = None)"
| "sub_parser_fails env Policies ext =
     (fst (ParseCertificatePoliciesExtensionOids env (value ext) False) = None)"
| "sub_parser_fails env PolicyConstraints ext = (ParsePolicyConstraints env (value ext) = None)"
| "sub_parser_fails env PolicyMappings ext = (ParsePolicyMappings env (value ext) = None)"
| "sub_parser_fails env InhibitAnyPolicy ext = (ParseInhibitAnyPolicy env (value ext) = None)"
| "sub_parser_fails env SubjectKeyIdentifier ext =
     (ParseSubjectKeyIdentifier env (value ext) = None)"
| "sub_parser_fails env AuthorityKeyIdentifier ext =
     (ParseAuthorityKeyIdentifier env (value ext) = None)"

fun block_of :: "('v, 'o) Collaborators \<Rightarrow> KnownExtension \<Rightarrow> 'v CreateStep" where
  "block_of env BasicConstraints = Create_BasicConstraints env"
| "block_of env KeyUsage = Create_KeyUsage env"
| "block_of env ExtendedKeyUsage = Create_ExtendedKeyUsage env"
| "block_of env SubjectAltName = Create_SubjectAltName env"
| "block_of env NameConstraints = Create_NameConstraints env"
| "block_of env AuthorityInfoAccess = Create_AuthorityInfoAccess env"
| "block_of env Policies = Create_Policies env"
| "block_of env PolicyConstraints = Create_PolicyConstraints env"
| "block_of env PolicyMappings = Create_PolicyMappings env"
| "block_of env InhibitAnyPolicy = Create_InhibitAnyPolicy env"
| "block_of env SubjectKeyIdentifier = Create_SubjectKeyIdentifier env"
| "block_of env AuthorityKeyIdentifier = Create_AuthorityKeyIdentifier env"

text \<open>
  A recognized extension is malformed in a table when it is there and its sub-parser rejects
  its value.
\<close>

definition malformed ::
  "('v, 'o) Collaborators \<Rightarrow> (Input \<rightharpoonup> ParsedExtension) \<Rightarrow> KnownExtension \<Rightarrow> bool" where
  "malformed env table k =
     (case table (oid_of env k) of None \<Rightarrow> False | Some ext \<Rightarrow> sub_parser_fails env k ext)"

text \<open>
  The malformed recognized extensions of an extensions region, in the order of the blocks.
\<close>

definition malformed_extensions ::
  "('v, 'o) Collaborators \<Rightarrow> Input \<Rightarrow> KnownExtension list" where
  "malformed_extensions env region =
     (case ParseExtensions env region of
        None \<Rightarrow> []
      | Some table \<Rightarrow> filter (malformed env table) dispatch_order)"

text \<open>
  The table-driven reading of the twelve blocks, to compare with the blocks themselves: what
  a block adds to the sink when it stops the construction, given the subject value and the
  table. An absent extension never stops it. A present one stops it when its sub-parser
  fails; the subjectAltName block also stops it when the sub-parser has succeeded, the
  subject value is empty and the extension is not critical.
\<close>

definition block_failure ::
  "('v, 'o) Collaborators \<Rightarrow> Input \<Rightarrow> (Input \<rightharpoonup> ParsedExtension) \<Rightarrow> KnownExtension
     \<Rightarrow> CertErrorId option" where
  "block_failure env subject table k =
     (case table (oid_of env k) of
        None \<Rightarrow> None
      | Some ext \<Rightarrow>
          if sub_parser_fails env k ext then Some (error_of k)
          else if k = SubjectAltName \<and> subject = [] \<and> \<not> critical ext
          then Some kSubjectAltNameNotCritical
          else None)"

text \<open>The failure of the earliest block that stops the construction, in a given order.\<close>

fun first_failure ::
  "('v, 'o) Collaborators \<Rightarrow> Input \<Rightarrow> (Input \<rightharpoonup> ParsedExtension) \<Rightarrow> KnownExtension list
     \<Rightarrow> CertErrorId option" where
  "first_failure env subject table [] = None"
| "first_failure env subject table (k # ks) =
     (case block_failure env subject table k of
        Some e \<Rightarrow> Some e
      | None \<Rightarrow> first_failure env subject table ks)"

section \<open>Predicates on inputs and on objects\<close>

text \<open>
  The input gets through lines 95 to 134: the envelope, the TBS certificate, the signature
  algorithm, and the subject and issuer names all decode. \<open>parsed_tbs\<close> is the decoded TBS
  certificate and \<open>subject\<close> the value of the subject's \<open>SEQUENCE\<close>, the \<open>subject_value\<close> whose
  length the subjectAltName block tests.
\<close>

definition parses_before_extensions ::
  "('v, 'o) Collaborators \<Rightarrow> Input \<Rightarrow> 'o \<Rightarrow> ParsedTbsCertificate \<Rightarrow> Input \<Rightarrow> bool" where
  "parses_before_extensions env backing_data options parsed_tbs subject =
     (case fst (ParseCertificate env backing_data) of
        None \<Rightarrow> False
      | Some (tbs_tlv, sigalg_tlv, sig_value) \<Rightarrow>
          fst (ParseTbsCertificate env tbs_tlv options) = Some parsed_tbs \<and>
          fst (ParseSignatureAlgorithm env sigalg_tlv) \<noteq> None \<and>
          GetSequenceValue env (subject_tlv parsed_tbs) = Some subject \<and>
          fst (NormalizeName env subject) \<noteq> None \<and>
          (case GetSequenceValue env (issuer_tlv parsed_tbs) of
             None \<Rightarrow> False
           | Some issuer \<Rightarrow> fst (NormalizeName env issuer) \<noteq> None))"

text \<open>
  The input gets through lines 95 to 106: the envelope and the TBS certificate decode, so
  that the input has a subject, an issuer and possibly an extensions region.
\<close>

definition decodes_tbs ::
  "('v, 'o) Collaborators \<Rightarrow> Input \<Rightarrow> 'o \<Rightarrow> ParsedTbsCertificate \<Rightarrow> bool" where
  "decodes_tbs env backing_data options parsed_tbs =
     (case fst (ParseCertificate env backing_data) of
        None \<Rightarrow> False
      | Some (tbs_tlv, sigalg_tlv, sig_value) \<Rightarrow>
          fst (ParseTbsCertificate env tbs_tlv options) = Some parsed_tbs)"

text \<open>
  No recognized extension is marked present in an object: the eight \<open>has_\<close> members are false
  and the four pointer or optional members are empty.
\<close>

definition no_extension_present :: "'v ParsedCertificate \<Rightarrow> bool" where
  "no_extension_present c =
     (\<not> has_basic_constraints c \<and> \<not> has_key_usage c \<and> \<not> has_extended_key_usage c \<and>
      subject_alt_names c = None \<and> name_constraints c = None \<and>
      \<not> has_authority_info_access c \<and> \<not> has_policy_oids c \<and>
      \<not> has_policy_constraints c \<and> \<not> has_policy_mappings c \<and>
      \<not> has_inhibit_any_policy c \<and> subject_key_identifier c = None \<and>
      authority_key_identifier c = None)"

text \<open>The steps of \<open>Create\<close> before the extensions.\<close>

definition prelude_steps :: "('v, 'o) Collaborators \<Rightarrow> 'o \<Rightarrow> 'v CreateStep list" where
  "prelude_steps env options =
     [Create_ParseCertificate env, Create_ParseTbsCertificate env options,
      Create_ParseSignatureAlgorithm env, Create_subject env, Create_issuer env]"

text \<open>
  What a block leaves alone: the TBS certificate, the table and the subject value; the sink
  only grows.
\<close>

definition frame :: "'v CreateState \<Rightarrow> 'v CreateState \<Rightarrow> bool" where
  "frame st st' =
     (tbs (result st') = tbs (result st) \<and> extensions (result st') = extensions (result st) \<and>
      subject_value st' = subject_value st \<and> (\<exists>added. errors st' = errors st @ added))"

text \<open>
  Two outcomes of a step agree up to the sink: both stop, or both go on with states that
  differ in the sink at most. A step is blind to the sink when changing the sink it starts
  from changes nothing else.
\<close>

definition same_run :: "CertErrors + 'v CreateState \<Rightarrow> CertErrors + 'v CreateState \<Rightarrow> bool" where
  "same_run a b =
     (case a of
        Inl _ \<Rightarrow> (case b of Inl _ \<Rightarrow> True | Inr _ \<Rightarrow> False)
      | Inr s \<Rightarrow> (case b of Inl _ \<Rightarrow> False | Inr t \<Rightarrow> t = s\<lparr>errors := errors t\<rparr>))"

definition sink_blind :: "'v CreateStep \<Rightarrow> bool" where
  "sink_blind step = (\<forall>st sink. same_run (step st) (step (st\<lparr>errors := sink\<rparr>)))"

section \<open>The spec's error kinds and its extension table builder\<close>

text \<open>
  The error taxonomy of the spec (section 7), and the kind that each identifier of the code
  belongs to, following the steps of section 4.2. No identifier of the code belongs to
  \<open>DuplicateExtension\<close>.
\<close>

datatype ErrorKind =
    MalformedCertificate
  | MalformedTbsCertificate
  | UnrecognizedOrMalformedSignatureAlgorithm
  | MalformedName
  | NameNormalizationFailed
  | MalformedExtensions
  | DuplicateExtension
  | EmptySubjectRequiresCriticalSan
  | MalformedExtension KnownExtension

fun error_kind :: "CertErrorId \<Rightarrow> ErrorKind option" where
  "error_kind kFailedParsingCertificate = Some MalformedCertificate"
| "error_kind kFailedParsingTbsCertificate = Some MalformedTbsCertificate"
| "error_kind kFailedParsingSignatureAlgorithm = Some UnrecognizedOrMalformedSignatureAlgorithm"
| "error_kind kFailedReadingIssuerOrSubject = Some MalformedName"
| "error_kind kFailedNormalizingSubject = Some NameNormalizationFailed"
| "error_kind kFailedNormalizingIssuer = Some NameNormalizationFailed"
| "error_kind kFailedParsingExtensions = Some MalformedExtensions"
| "error_kind kFailedParsingBasicConstraints = Some (MalformedExtension BasicConstraints)"
| "error_kind kFailedParsingKeyUsage = Some (MalformedExtension KeyUsage)"
| "error_kind kFailedParsingEku = Some (MalformedExtension ExtendedKeyUsage)"
| "error_kind kFailedParsingSubjectAltName = Some (MalformedExtension SubjectAltName)"
| "error_kind kSubjectAltNameNotCritical = Some EmptySubjectRequiresCriticalSan"
| "error_kind kFailedParsingNameConstraints = Some (MalformedExtension NameConstraints)"
| "error_kind kFailedParsingAia = Some (MalformedExtension AuthorityInfoAccess)"
| "error_kind kFailedParsingPolicies = Some (MalformedExtension Policies)"
| "error_kind kFailedParsingPolicyConstraints = Some (MalformedExtension PolicyConstraints)"
| "error_kind kFailedParsingPolicyMappings = Some (MalformedExtension PolicyMappings)"
| "error_kind kFailedParsingInhibitAnyPolicy = Some (MalformedExtension InhibitAnyPolicy)"
| "error_kind kFailedParsingAuthorityKeyIdentifier = Some (MalformedExtension AuthorityKeyIdentifier)"
| "error_kind kFailedParsingSubjectKeyIdentifier = Some (MalformedExtension SubjectKeyIdentifier)"
| "error_kind (kCollaboratorError name) = None"

text \<open>
  Modelled from the spec: the Extension Table Builder (section 4.1), which is \<open>ParseExtensions\<close>
  of net/cert/pki/parse_certificate.cc, a file that is not among the sources. It parses a
  sequence of extension records, each carrying an identifier, a criticality flag and a value
  byte region, into a mapping from identifier to entry, and fails with \<open>DuplicateExtension\<close>
  if any identifier appears more than once. Reading the records off the bytes is the DER
  reader's work and a parameter, \<open>read_records\<close>; a region it cannot read fails with
  \<open>MalformedExtensions\<close>.
\<close>

fun insert_records ::
  "(Input \<times> ParsedExtension) list \<Rightarrow> (Input \<rightharpoonup> ParsedExtension)
     \<Rightarrow> ErrorKind + (Input \<rightharpoonup> ParsedExtension)" where
  "insert_records [] table = Inr table"
| "insert_records ((oid, ext) # records) table =
     (if table oid \<noteq> None then Inl DuplicateExtension
      else insert_records records (table(oid \<mapsto> ext)))"

definition ExtensionTableBuilder ::
  "(Input \<Rightarrow> (Input \<times> ParsedExtension) list option) \<Rightarrow> Input
     \<Rightarrow> ErrorKind + (Input \<rightharpoonup> ParsedExtension)" where
  "ExtensionTableBuilder read_records region =
     (case read_records region of
        None \<Rightarrow> Inl MalformedExtensions
      | Some records \<Rightarrow> insert_records records Map.empty)"

text \<open>
  What \<open>Create\<close> sees of the builder: \<open>ParseExtensions\<close> returns a boolean and fills the map,
  and is not handed the sink, so the kind of the builder's failure does not reach \<open>Create\<close>.
\<close>

definition table_of ::
  "ErrorKind + (Input \<rightharpoonup> ParsedExtension) \<Rightarrow> (Input \<rightharpoonup> ParsedExtension) option" where
  "table_of built = (case built of Inl _ \<Rightarrow> None | Inr table \<Rightarrow> Some table)"

section \<open>A concrete set of collaborators and concrete inputs\<close>

text \<open>
  Collaborators to run \<open>Create\<close> on concrete inputs. \<open>read_short_sequence\<close> reads a DER
  \<open>SEQUENCE\<close> with a one-byte length. \<open>example_collaborators subject records\<close> decodes any
  non-empty buffer to a certificate whose subject is \<open>subject\<close> and whose extensions region
  holds \<open>records\<close> (\<open>None\<close>: no extensions region); the table is built by the builder above; a
  sub-parser rejects the empty value and accepts every other value. The identifiers are those
  of RFC 5280.
\<close>

definition read_short_sequence :: "Input \<Rightarrow> (Input \<times> Input) option" where
  "read_short_sequence tlv =
     (case tlv of
        tag # len # rest \<Rightarrow>
          if tag = 0x30 \<and> len < 0x80 \<and> unat len \<le> length rest
          then Some (take (unat len) rest, drop (unat len) rest)
          else None
      | _ \<Rightarrow> None)"

definition example_parse :: "Input \<Rightarrow> nat option" where
  "example_parse bytes = (if bytes = [] then None else Some (length bytes))"

definition example_collaborators ::
  "Input \<Rightarrow> (Input \<times> ParsedExtension) list option \<Rightarrow> (nat, unit) Collaborators" where
  "example_collaborators subject records =
     \<lparr>ParseCertificate =
        (\<lambda>der. if der = [] then (None, [kCollaboratorError ''empty input''])
               else (Some (der, der, 0), [])),
      ParseTbsCertificate =
        (\<lambda>tlv options.
           (Some \<lparr>subject_tlv = subject, issuer_tlv = [0x30, 0x02, 0x31, 0x00],
                  extensions_tlv = map_option (\<lambda>_. [0xA3]) records\<rparr>, [])),
      ParseSignatureAlgorithm = (\<lambda>tlv. (Some 0, [])),
      ReadTag_kSequence = read_short_sequence,
      NormalizeName = (\<lambda>name. (Some name, [])),
      ParseExtensions = (\<lambda>region. table_of (ExtensionTableBuilder (\<lambda>_. records) region)),
      ParseBasicConstraints = example_parse,
      ParseKeyUsage = example_parse,
      ParseEKUExtension = example_parse,
      GeneralNames_Create = (\<lambda>bytes. (example_parse bytes, [])),
      NameConstraints_Create = (\<lambda>bytes is_critical. (example_parse bytes, [])),
      ParseAuthorityInfoAccessURIs = (\<lambda>bytes. map_option (\<lambda>n. (n, n)) (example_parse bytes)),
      ParseCertificatePoliciesExtensionOids = (\<lambda>bytes fail_unknown. (example_parse bytes, [])),
      ParsePolicyConstraints = example_parse,
      ParsePolicyMappings = example_parse,
      ParseInhibitAnyPolicy = example_parse,
      ParseSubjectKeyIdentifier = example_parse,
      ParseAuthorityKeyIdentifier = example_parse,
      kBasicConstraintsOid = [0x55, 0x1D, 0x13],
      kKeyUsageOid = [0x55, 0x1D, 0x0F],
      kExtKeyUsageOid = [0x55, 0x1D, 0x25],
      kSubjectAltNameOid = [0x55, 0x1D, 0x11],
      kNameConstraintsOid = [0x55, 0x1D, 0x1E],
      kAuthorityInfoAccessOid = [0x2B, 0x06, 0x01, 0x05, 0x05, 0x07, 0x01, 0x01],
      kCertificatePoliciesOid = [0x55, 0x1D, 0x20],
      kPolicyConstraintsOid = [0x55, 0x1D, 0x24],
      kPolicyMappingsOid = [0x55, 0x1D, 0x21],
      kInhibitAnyPolicyOid = [0x55, 0x1D, 0x36],
      kSubjectKeyIdentifierOid = [0x55, 0x1D, 0x0E],
      kAuthorityKeyIdentifierOid = [0x55, 0x1D, 0x23]\<rparr>"

text \<open>A subject that is the empty \<open>SEQUENCE\<close>, and one that holds an empty \<open>SET\<close>.\<close>

definition empty_subject :: Input where
  "empty_subject = [0x30, 0x00]"

definition some_subject :: Input where
  "some_subject = [0x30, 0x02, 0x31, 0x00]"

text \<open>Extension records: identifier, then value and criticality flag.\<close>

definition only_key_usage :: "(Input \<times> ParsedExtension) list" where
  "only_key_usage = [([0x55, 0x1D, 0x0F], \<lparr>value = [0x03, 0x02, 0x05, 0xA0], critical = True\<rparr>)]"

definition non_critical_san :: "(Input \<times> ParsedExtension) list" where
  "non_critical_san =
     [([0x55, 0x1D, 0x0F], \<lparr>value = [0x03, 0x02, 0x05, 0xA0], critical = True\<rparr>),
      ([0x55, 0x1D, 0x11], \<lparr>value = [0x30, 0x00], critical = False\<rparr>)]"

definition critical_san :: "(Input \<times> ParsedExtension) list" where
  "critical_san =
     [([0x55, 0x1D, 0x0F], \<lparr>value = [0x03, 0x02, 0x05, 0xA0], critical = True\<rparr>),
      ([0x55, 0x1D, 0x11], \<lparr>value = [0x30, 0x00], critical = True\<rparr>)]"

text \<open>Two basic constraints entries with differing values.\<close>

definition duplicate_basic_constraints :: "(Input \<times> ParsedExtension) list" where
  "duplicate_basic_constraints =
     [([0x55, 0x1D, 0x13], \<lparr>value = [0x30, 0x00], critical = True\<rparr>),
      ([0x55, 0x1D, 0x13], \<lparr>value = [0x30, 0x03, 0x01, 0x01, 0xFF], critical = False\<rparr>)]"

text \<open>Key usage, an identifier that \<open>Create\<close> does not recognize, subjectAltName.\<close>

definition three_extensions :: "(Input \<times> ParsedExtension) list" where
  "three_extensions =
     [([0x55, 0x1D, 0x0F], \<lparr>value = [0x03, 0x02, 0x05, 0xA0], critical = True\<rparr>),
      ([0x2A, 0x03, 0x04], \<lparr>value = [0x05, 0x00], critical = True\<rparr>),
      ([0x55, 0x1D, 0x11], \<lparr>value = [0x30, 0x00], critical = False\<rparr>)]"

text \<open>Records whose value is empty are the ones the example sub-parsers reject.\<close>

definition malformed_key_usage :: "(Input \<times> ParsedExtension) list" where
  "malformed_key_usage =
     [([0x55, 0x1D, 0x13], \<lparr>value = [0x30, 0x00], critical = True\<rparr>),
      ([0x55, 0x1D, 0x0F], \<lparr>value = [], critical = False\<rparr>)]"

definition two_malformed :: "(Input \<times> ParsedExtension) list" where
  "two_malformed =
     [([0x55, 0x1D, 0x23], \<lparr>value = [], critical = False\<rparr>),
      ([0x55, 0x1D, 0x0F], \<lparr>value = [], critical = True\<rparr>),
      ([0x55, 0x1D, 0x13], \<lparr>value = [0x30, 0x00], critical = True\<rparr>)]"

definition san_then_malformed :: "(Input \<times> ParsedExtension) list" where
  "san_then_malformed =
     [([0x55, 0x1D, 0x11], \<lparr>value = [0x30, 0x00], critical = False\<rparr>),
      ([0x55, 0x1D, 0x1E], \<lparr>value = [], critical = True\<rparr>)]"

definition san_then_two_malformed :: "(Input \<times> ParsedExtension) list" where
  "san_then_two_malformed =
     [([0x55, 0x1D, 0x11], \<lparr>value = [0x30, 0x00], critical = False\<rparr>),
      ([0x55, 0x1D, 0x1E], \<lparr>value = [], critical = True\<rparr>),
      ([0x2B, 0x06, 0x01, 0x05, 0x05, 0x07, 0x01, 0x01], \<lparr>value = [], critical = False\<rparr>)]"

section \<open>Unfolding and running the steps\<close>

text \<open>
  The definitions to unfold to run \<open>Create\<close> on a concrete input, and the list of steps
  split at the extensions.
\<close>

lemmas block_defs =
  Create_BasicConstraints_def Create_KeyUsage_def Create_ExtendedKeyUsage_def
  Create_SubjectAltName_def Create_NameConstraints_def Create_AuthorityInfoAccess_def
  Create_Policies_def Create_PolicyConstraints_def Create_PolicyMappings_def
  Create_InhibitAnyPolicy_def Create_SubjectKeyIdentifier_def
  Create_AuthorityKeyIdentifier_def

lemmas prelude_defs =
  Create_ParseCertificate_def Create_ParseTbsCertificate_def
  Create_ParseSignatureAlgorithm_def Create_subject_def Create_issuer_def

lemmas example_defs =
  example_collaborators_def example_parse_def read_short_sequence_def GetSequenceValue_def
  ExtensionTableBuilder_def table_of_def empty_subject_def some_subject_def

lemmas Create_eval =
  Create_def Create_body_def Create_steps_def Create_initial_def prelude_defs
  Create_extensions_def extension_steps_def block_defs GetExtension_def AddError_def
  ParsedCertificate_default_def ParsedTbsCertificate_default_def ParsedExtension_default_def
  unused_errors_def example_defs

lemmas table_eval =
  malformed_def block_failure_def dispatch_order_def

lemma run_steps_append:
  "run_steps (xs @ ys) st =
     (case run_steps xs st of Inl es \<Rightarrow> Inl es | Inr st' \<Rightarrow> run_steps ys st')"
  by (induction xs arbitrary: st) (auto split: sum.splits)

lemma Create_steps_split: "Create_steps env options = prelude_steps env options @ [Create_extensions env]"
  by (simp add: Create_steps_def prelude_steps_def)

lemma extension_steps_dispatch: "extension_steps env = map (block_of env) dispatch_order"
  by (simp add: extension_steps_def dispatch_order_def)

lemma Create_eq:
  "Create env backing_data options errors_ptr =
     (fst (Create_body env backing_data options
             (case errors_ptr of None \<Rightarrow> unused_errors | Some sink \<Rightarrow> sink)),
      map_option (\<lambda>sink. snd (Create_body env backing_data options sink)) errors_ptr)"
  by (simp add: Create_def split: option.splits prod.splits)

section \<open>The blocks against the table\<close>

text \<open>
  Each block does what \<open>block_failure\<close> says: it stops with that identifier as the last
  one of the sink, or goes on and leaves the table, the TBS certificate and the subject
  value alone. The run of the blocks then stops at the first failure in the order given.
\<close>

lemma block_fails:
  assumes "extensions_tlv (tbs (result st)) \<noteq> None"
    and "block_failure env (subject_value st) (extensions (result st)) k = Some e"
  shows "\<exists>added. block_of env k st = Inl (errors st @ added @ [e])"
  using assms
  by (cases k)
     (auto simp: block_failure_def block_defs GetExtension_def AddError_def
           split: option.splits prod.splits if_splits)

lemma block_passes:
  assumes "extensions_tlv (tbs (result st)) \<noteq> None"
    and "block_failure env (subject_value st) (extensions (result st)) k = None"
  shows "\<exists>st'. block_of env k st = Inr st' \<and> frame st st'"
  using assms
  by (cases k)
     (auto simp: block_failure_def block_defs GetExtension_def AddError_def frame_def
           split: option.splits prod.splits if_splits)

lemma frame_refl: "frame st st"
  by (simp add: frame_def)

lemma frame_trans: "frame a b \<Longrightarrow> frame b c \<Longrightarrow> frame a c"
  by (auto simp: frame_def)

lemma run_blocks_fail:
  assumes "extensions_tlv (tbs (result st)) \<noteq> None"
    and "first_failure env (subject_value st) (extensions (result st)) ks = Some e"
  shows "\<exists>added. run_steps (map (block_of env) ks) st = Inl (errors st @ added @ [e])"
  using assms
proof (induction ks arbitrary: st)
  case Nil
  then show ?case by simp
next
  case (Cons k ks)
  show ?case
  proof (cases "block_failure env (subject_value st) (extensions (result st)) k")
    case (Some e')
    with Cons.prems have "e' = e" by simp
    with Some Cons.prems(1) block_fails [of st env k e] show ?thesis by auto
  next
    case None
    from block_passes [OF Cons.prems(1) None]
    obtain st' where st': "block_of env k st = Inr st'" "frame st st'" by blast
    from st'(2) obtain added where fr:
      "tbs (result st') = tbs (result st)" "extensions (result st') = extensions (result st)"
      "subject_value st' = subject_value st" "errors st' = errors st @ added"
      by (auto simp: frame_def)
    from Cons.prems None fr
    have "extensions_tlv (tbs (result st')) \<noteq> None"
      and "first_failure env (subject_value st') (extensions (result st')) ks = Some e"
      by simp_all
    from Cons.IH [OF this] obtain added' where
      "run_steps (map (block_of env) ks) st' = Inl (errors st' @ added' @ [e])" by blast
    with st'(1) fr(4) have
      "run_steps (map (block_of env) (k # ks)) st = Inl (errors st @ (added @ added') @ [e])"
      by simp
    then show ?thesis by blast
  qed
qed

lemma run_blocks_pass:
  assumes "extensions_tlv (tbs (result st)) \<noteq> None"
    and "first_failure env (subject_value st) (extensions (result st)) ks = None"
  shows "\<exists>st'. run_steps (map (block_of env) ks) st = Inr st' \<and> frame st st'"
  using assms
proof (induction ks arbitrary: st)
  case Nil
  then show ?case by (simp add: frame_refl)
next
  case (Cons k ks)
  from Cons.prems(2)
  have none: "block_failure env (subject_value st) (extensions (result st)) k = None"
    and rest: "first_failure env (subject_value st) (extensions (result st)) ks = None"
    by (auto split: option.splits)
  from block_passes [OF Cons.prems(1) none]
  obtain st' where st': "block_of env k st = Inr st'" "frame st st'" by blast
  from st'(2) Cons.prems(1) rest
  have "extensions_tlv (tbs (result st')) \<noteq> None"
    and "first_failure env (subject_value st') (extensions (result st')) ks = None"
    by (simp_all add: frame_def)
  from Cons.IH [OF this] obtain st'' where
    "run_steps (map (block_of env) ks) st' = Inr st''" "frame st' st''" by blast
  with st' show ?case by (auto intro: frame_trans)
qed

lemma run_blocks_frame:
  assumes "extensions_tlv (tbs (result st)) \<noteq> None"
    and "run_steps (map (block_of env) ks) st = Inr st'"
  shows "frame st st'"
proof (cases "first_failure env (subject_value st) (extensions (result st)) ks")
  case None
  from run_blocks_pass [OF assms(1) None] assms(2) show ?thesis by auto
next
  case (Some e)
  from run_blocks_fail [OF assms(1) Some] assms(2) show ?thesis by auto
qed

lemma first_failure_append:
  "first_failure env subject table (xs @ ys) =
     (case first_failure env subject table xs of
        Some e \<Rightarrow> Some e
      | None \<Rightarrow> first_failure env subject table ys)"
  by (induction xs) (auto split: option.splits)

lemma first_failure_None_iff:
  "first_failure env subject table ks = None \<longleftrightarrow>
     (\<forall>k \<in> set ks. block_failure env subject table k = None)"
  by (induction ks) (auto split: option.splits)

lemma in_dispatch_order: "k \<in> set dispatch_order"
  by (cases k) (simp_all add: dispatch_order_def)

lemma well_formed_block_failure:
  "\<not> malformed env table k \<Longrightarrow> k \<noteq> SubjectAltName \<Longrightarrow> block_failure env subject table k = None"
  by (auto simp: malformed_def block_failure_def split: option.splits)

lemma no_failure_without_san:
  assumes "table (kSubjectAltNameOid env) = None"
    and "list_all (\<lambda>k. \<not> malformed env table k) dispatch_order"
  shows "first_failure env subject table dispatch_order = None"
proof -
  have "block_failure env subject table k = None" for k
  proof (cases "k = SubjectAltName")
    case True
    with assms(1) show ?thesis by (simp add: block_failure_def)
  next
    case False
    from assms(2) in_dispatch_order [of k] have "\<not> malformed env table k"
      by (simp add: list_all_iff)
    with False show ?thesis by (simp add: well_formed_block_failure)
  qed
  then show ?thesis by (simp add: first_failure_None_iff)
qed

lemma no_failure_with_critical_san:
  assumes "table (kSubjectAltNameOid env) = Some ext" and "critical ext"
    and "list_all (\<lambda>k. \<not> malformed env table k) dispatch_order"
  shows "first_failure env subject table dispatch_order = None"
proof -
  have "block_failure env subject table k = None" for k
  proof (cases "k = SubjectAltName")
    case True
    from assms(3) in_dispatch_order [of SubjectAltName]
    have "\<not> malformed env table SubjectAltName" by (simp add: list_all_iff)
    with True assms(1,2) show ?thesis by (simp add: block_failure_def malformed_def)
  next
    case False
    from assms(3) in_dispatch_order [of k] have "\<not> malformed env table k"
      by (simp add: list_all_iff)
    with False show ?thesis by (simp add: well_formed_block_failure)
  qed
  then show ?thesis by (simp add: first_failure_None_iff)
qed

lemma failure_with_non_critical_san:
  assumes "table (kSubjectAltNameOid env) = Some ext" and "\<not> critical ext"
    and "list_all (\<lambda>k. \<not> malformed env table k)
           [BasicConstraints, KeyUsage, ExtendedKeyUsage, SubjectAltName]"
  shows "first_failure env [] table dispatch_order = Some kSubjectAltNameNotCritical"
proof -
  from assms(3) have
    "block_failure env [] table BasicConstraints = None"
    "block_failure env [] table KeyUsage = None"
    "block_failure env [] table ExtendedKeyUsage = None"
    by (simp_all add: well_formed_block_failure)
  moreover from assms have
    "block_failure env [] table SubjectAltName = Some kSubjectAltNameNotCritical"
    by (simp add: block_failure_def malformed_def)
  ultimately show ?thesis by (simp add: dispatch_order_def)
qed

section \<open>\<open>Create\<close> from the first line to the last\<close>

lemma prelude_passes:
  assumes "parses_before_extensions env backing_data options parsed_tbs subject"
  shows "\<exists>st added. run_steps (prelude_steps env options) (Create_initial backing_data sink) = Inr st \<and>
           tbs (result st) = parsed_tbs \<and> subject_value st = subject \<and>
           errors st = sink @ added \<and> no_extension_present (result st) \<and>
           extensions (result st) = Map.empty"
  using assms
  by (auto simp: parses_before_extensions_def prelude_steps_def prelude_defs Create_initial_def
        ParsedCertificate_default_def no_extension_present_def
        split: option.splits prod.splits)

lemma prelude_only_passes:
  assumes "run_steps (prelude_steps env options) (Create_initial backing_data sink) = Inr st"
  shows "parses_before_extensions env backing_data options (tbs (result st)) (subject_value st)"
  using assms
  by (auto simp: parses_before_extensions_def prelude_steps_def prelude_defs Create_initial_def
        ParsedCertificate_default_def
        split: option.splits prod.splits sum.splits)

lemma Create_body_prelude:
  assumes "parses_before_extensions env backing_data options parsed_tbs subject"
  shows "\<exists>st added. tbs (result st) = parsed_tbs \<and> subject_value st = subject \<and>
           errors st = sink @ added \<and> no_extension_present (result st) \<and>
           extensions (result st) = Map.empty \<and>
           Create_body env backing_data options sink =
             (case Create_extensions env st of
                Inl sink' \<Rightarrow> (None, sink')
              | Inr st' \<Rightarrow> (Some (result st'), errors st'))"
proof -
  from prelude_passes [OF assms, of sink] obtain st added where
    run: "run_steps (prelude_steps env options) (Create_initial backing_data sink) = Inr st"
    and facts: "tbs (result st) = parsed_tbs" "subject_value st = subject"
      "errors st = sink @ added" "no_extension_present (result st)"
      "extensions (result st) = Map.empty"
    by blast
  from run have
    "Create_body env backing_data options sink =
       (case Create_extensions env st of
          Inl sink' \<Rightarrow> (None, sink')
        | Inr st' \<Rightarrow> (Some (result st'), errors st'))"
    by (simp add: Create_body_def Create_steps_split run_steps_append split: sum.splits)
  with facts show ?thesis by blast
qed

lemma Create_body_no_region:
  assumes "parses_before_extensions env backing_data options parsed_tbs subject"
    and "extensions_tlv parsed_tbs = None"
  shows "\<exists>created sink'. Create_body env backing_data options sink = (Some created, sink') \<and>
           tbs created = parsed_tbs \<and> no_extension_present created \<and>
           extensions created = Map.empty"
proof -
  from Create_body_prelude [OF assms(1), of sink] obtain st where
    st: "tbs (result st) = parsed_tbs" "no_extension_present (result st)"
      "extensions (result st) = Map.empty"
      "Create_body env backing_data options sink =
         (case Create_extensions env st of
            Inl sink' \<Rightarrow> (None, sink')
          | Inr st' \<Rightarrow> (Some (result st'), errors st'))"
    by blast
  from st(1) assms(2) have "Create_extensions env st = Inr st"
    by (simp add: Create_extensions_def)
  with st show ?thesis by simp
qed

lemma Create_body_table_rejected:
  assumes "parses_before_extensions env backing_data options parsed_tbs subject"
    and "extensions_tlv parsed_tbs = Some region"
    and "ParseExtensions env region = None"
  shows "\<exists>added. Create_body env backing_data options sink =
           (None, sink @ added @ [kFailedParsingExtensions])"
proof -
  from Create_body_prelude [OF assms(1), of sink] obtain st added where
    st: "tbs (result st) = parsed_tbs" "errors st = sink @ added"
      "Create_body env backing_data options sink =
         (case Create_extensions env st of
            Inl sink' \<Rightarrow> (None, sink')
          | Inr st' \<Rightarrow> (Some (result st'), errors st'))"
    by blast
  from st(1,2) assms(2,3)
  have "Create_extensions env st = Inl (sink @ added @ [kFailedParsingExtensions])"
    by (simp add: Create_extensions_def AddError_def)
  with st(3) show ?thesis by simp
qed

lemma Create_body_first_failure:
  assumes "parses_before_extensions env backing_data options parsed_tbs subject"
    and "extensions_tlv parsed_tbs = Some region"
    and "ParseExtensions env region = Some table"
    and "first_failure env subject table dispatch_order = Some e"
  shows "\<exists>added. Create_body env backing_data options sink = (None, sink @ added @ [e])"
proof -
  from Create_body_prelude [OF assms(1), of sink] obtain st added where
    st: "tbs (result st) = parsed_tbs" "subject_value st = subject" "errors st = sink @ added"
      "Create_body env backing_data options sink =
         (case Create_extensions env st of
            Inl sink' \<Rightarrow> (None, sink')
          | Inr st' \<Rightarrow> (Some (result st'), errors st'))"
    by blast
  define st0 where
    "st0 = st\<lparr>result := (result st)\<lparr>extensions := table\<rparr>, extension := ParsedExtension_default\<rparr>"
  from st(1,2) assms(2,4) have
    "extensions_tlv (tbs (result st0)) \<noteq> None"
    "first_failure env (subject_value st0) (extensions (result st0)) dispatch_order = Some e"
    by (simp_all add: st0_def)
  from run_blocks_fail [OF this] obtain added' where
    "run_steps (map (block_of env) dispatch_order) st0 = Inl (errors st0 @ added' @ [e])"
    by blast
  with st(1,3) assms(2,3)
  have "Create_extensions env st = Inl (sink @ (added @ added') @ [e])"
    by (simp add: Create_extensions_def extension_steps_dispatch st0_def)
  with st(4) show ?thesis by (metis (no_types, lifting) sum.simps(5))
qed

lemma Create_body_no_failure:
  assumes "parses_before_extensions env backing_data options parsed_tbs subject"
    and "extensions_tlv parsed_tbs = Some region"
    and "ParseExtensions env region = Some table"
    and "first_failure env subject table dispatch_order = None"
  shows "\<exists>created sink'. Create_body env backing_data options sink = (Some created, sink') \<and>
           tbs created = parsed_tbs \<and> extensions created = table"
proof -
  from Create_body_prelude [OF assms(1), of sink] obtain st added where
    st: "tbs (result st) = parsed_tbs" "subject_value st = subject" "errors st = sink @ added"
      "Create_body env backing_data options sink =
         (case Create_extensions env st of
            Inl sink' \<Rightarrow> (None, sink')
          | Inr st' \<Rightarrow> (Some (result st'), errors st'))"
    by blast
  define st0 where
    "st0 = st\<lparr>result := (result st)\<lparr>extensions := table\<rparr>, extension := ParsedExtension_default\<rparr>"
  from st(1,2) assms(2,4) have
    "extensions_tlv (tbs (result st0)) \<noteq> None"
    "first_failure env (subject_value st0) (extensions (result st0)) dispatch_order = None"
    by (simp_all add: st0_def)
  from run_blocks_pass [OF this] obtain st' where
    st': "run_steps (map (block_of env) dispatch_order) st0 = Inr st'" "frame st0 st'"
    by blast
  from st'(1) st(1) assms(2,3)
  have "Create_extensions env st = Inr st'"
    by (simp add: Create_extensions_def extension_steps_dispatch st0_def)
  moreover from st'(2) st(1) have "tbs (result st') = parsed_tbs" "extensions (result st') = table"
    by (simp_all add: frame_def st0_def)
  ultimately show ?thesis using st(4) by simp
qed

lemma Create_body_success_table:
  assumes "Create_body env backing_data options sink = (Some created, sink')"
    and "extensions_tlv (tbs created) = Some region"
  shows "ParseExtensions env region = Some (extensions created)"
proof -
  from assms(1) obtain st st' where
    pre: "run_steps (prelude_steps env options) (Create_initial backing_data sink) = Inr st"
    and ext: "Create_extensions env st = Inr st'" and res: "created = result st'"
    by (auto simp: Create_body_def Create_steps_split run_steps_append split: sum.splits)
  show ?thesis
  proof (cases "extensions_tlv (tbs (result st))")
    case None
    with ext have "st' = st" by (simp add: Create_extensions_def)
    with None res assms(2) show ?thesis by simp
  next
    case (Some region')
    with ext obtain table where table: "ParseExtensions env region' = Some table"
      and run: "run_steps (map (block_of env) dispatch_order)
                  (st\<lparr>result := (result st)\<lparr>extensions := table\<rparr>,
                      extension := ParsedExtension_default\<rparr>) = Inr st'"
      by (auto simp: Create_extensions_def extension_steps_dispatch split: option.splits)
    from Some have "extensions_tlv (tbs (result (st\<lparr>result := (result st)\<lparr>extensions := table\<rparr>,
                      extension := ParsedExtension_default\<rparr>))) \<noteq> None" by simp
    from run_blocks_frame [OF this run]
    have "tbs (result st') = tbs (result st)" "extensions (result st') = table"
      by (simp_all add: frame_def)
    with Some table res assms(2) show ?thesis by simp
  qed
qed

lemma Create_fails_with:
  assumes "\<And>sink. \<exists>added. Create_body env backing_data options sink = (None, sink @ added @ [e])"
  shows "fst (Create env backing_data options errors_ptr) = None \<and>
         (\<exists>added. Create env backing_data options (Some sink) = (None, Some (sink @ added @ [e])))"
proof -
  from assms [of "case errors_ptr of None \<Rightarrow> unused_errors | Some sink \<Rightarrow> sink"]
  have "fst (Create env backing_data options errors_ptr) = None"
    by (auto simp: Create_eq)
  moreover from assms [of sink]
  have "\<exists>added. Create env backing_data options (Some sink) = (None, Some (sink @ added @ [e]))"
    by (auto simp: Create_eq)
  ultimately show ?thesis by simp
qed

lemma Create_succeeds:
  assumes "\<And>sink. \<exists>created sink'. Create_body env backing_data options sink = (Some created, sink')"
  shows "fst (Create env backing_data options errors_ptr) \<noteq> None"
  using assms [of "case errors_ptr of None \<Rightarrow> unused_errors | Some sink \<Rightarrow> sink"]
  by (auto simp: Create_eq)

lemma decodes_then_stops_or_parses:
  assumes "decodes_tbs env backing_data options parsed_tbs"
  shows "fst (Create_body env backing_data options sink) = None \<or>
         (\<exists>subject. parses_before_extensions env backing_data options parsed_tbs subject)"
proof (cases "run_steps (prelude_steps env options) (Create_initial backing_data sink)")
  case (Inl es)
  then show ?thesis
    by (simp add: Create_body_def Create_steps_split run_steps_append)
next
  case (Inr st)
  from prelude_only_passes [OF Inr]
  have parses: "parses_before_extensions env backing_data options (tbs (result st)) (subject_value st)" .
  with assms have "tbs (result st) = parsed_tbs"
    by (auto simp: parses_before_extensions_def decodes_tbs_def split: option.splits)
  with parses show ?thesis by blast
qed

lemma Create_no_object:
  assumes "decodes_tbs env backing_data options parsed_tbs"
    and "\<And>subject sink. parses_before_extensions env backing_data options parsed_tbs subject \<Longrightarrow>
           fst (Create_body env backing_data options sink) = None"
  shows "fst (Create env backing_data options errors_ptr) = None"
  using decodes_then_stops_or_parses [OF assms(1)] assms(2)
  by (auto simp: Create_eq)

section \<open>No step reads the sink\<close>

lemma sink_blind_prelude:
  "sink_blind (Create_ParseCertificate env)"
  "sink_blind (Create_ParseTbsCertificate env options)"
  "sink_blind (Create_ParseSignatureAlgorithm env)"
  "sink_blind (Create_subject env)"
  "sink_blind (Create_issuer env)"
  by (auto simp: sink_blind_def same_run_def prelude_defs split: option.splits prod.splits)

lemma sink_blind_block: "sink_blind (block_of env k)"
  by (cases k)
     (auto simp: sink_blind_def same_run_def block_defs GetExtension_def
           split: option.splits prod.splits)

lemma sink_blind_run_steps:
  assumes "\<forall>step \<in> set steps. sink_blind step"
  shows "sink_blind (run_steps steps)"
  using assms
proof (induction steps)
  case Nil
  show ?case by (simp add: sink_blind_def same_run_def)
next
  case (Cons step steps)
  then have hd: "sink_blind step" and tl: "sink_blind (run_steps steps)" by simp_all
  show ?case
    unfolding sink_blind_def
  proof (intro allI)
    fix st :: "'a CreateState" and sink
    from hd have first: "same_run (step st) (step (st\<lparr>errors := sink\<rparr>))"
      by (simp add: sink_blind_def)
    show "same_run (run_steps (step # steps) st) (run_steps (step # steps) (st\<lparr>errors := sink\<rparr>))"
    proof (cases "step st")
      case (Inl es)
      with first show ?thesis by (auto simp: same_run_def split: sum.splits)
    next
      case (Inr s)
      with first obtain t where t: "step (st\<lparr>errors := sink\<rparr>) = Inr t" "t = s\<lparr>errors := errors t\<rparr>"
        by (auto simp: same_run_def split: sum.splits)
      from tl have "same_run (run_steps steps s) (run_steps steps (s\<lparr>errors := errors t\<rparr>))"
        by (simp add: sink_blind_def)
      with Inr t show ?thesis by simp
    qed
  qed
qed

lemma sink_blind_extensions: "sink_blind (Create_extensions env)"
proof -
  have blocks: "sink_blind (run_steps (extension_steps env))"
    by (rule sink_blind_run_steps) (auto simp: extension_steps_dispatch sink_blind_block)
  show ?thesis
    unfolding sink_blind_def
  proof (intro allI)
    fix st :: "'a CreateState" and sink
    show "same_run (Create_extensions env st) (Create_extensions env (st\<lparr>errors := sink\<rparr>))"
    proof (cases "extensions_tlv (tbs (result st))")
      case None
      then show ?thesis by (simp add: Create_extensions_def same_run_def)
    next
      case (Some region)
      show ?thesis
      proof (cases "ParseExtensions env region")
        case None
        with Some show ?thesis by (simp add: Create_extensions_def same_run_def)
      next
        case (Some table)
        let ?st0 = "st\<lparr>result := (result st)\<lparr>extensions := table\<rparr>,
                      extension := ParsedExtension_default\<rparr>"
        have swap: "(st\<lparr>errors := sink\<rparr>)\<lparr>result := (result st)\<lparr>extensions := table\<rparr>,
                      extension := ParsedExtension_default\<rparr> = ?st0\<lparr>errors := sink\<rparr>"
          by (cases st) simp
        from blocks have run:
          "same_run (run_steps (extension_steps env) ?st0)
             (run_steps (extension_steps env) (?st0\<lparr>errors := sink\<rparr>))"
          unfolding sink_blind_def by blast
        from Some \<open>extensions_tlv (tbs (result st)) = Some region\<close>
        have lhs: "Create_extensions env st = run_steps (extension_steps env) ?st0"
          by (simp add: Create_extensions_def)
        from Some \<open>extensions_tlv (tbs (result st)) = Some region\<close>
        have rhs: "Create_extensions env (st\<lparr>errors := sink\<rparr>) =
                     run_steps (extension_steps env) (?st0\<lparr>errors := sink\<rparr>)"
          unfolding swap [symmetric] by (simp add: Create_extensions_def)
        from run show ?thesis unfolding lhs rhs .
      qed
    qed
  qed
qed

lemma Create_body_sink_blind:
  "fst (Create_body env backing_data options sink) =
   fst (Create_body env backing_data options sink')"
proof -
  have "sink_blind (run_steps (Create_steps env options))"
    by (rule sink_blind_run_steps)
       (auto simp: Create_steps_def sink_blind_prelude sink_blind_extensions)
  then have "same_run
      (run_steps (Create_steps env options) (Create_initial backing_data sink))
      (run_steps (Create_steps env options) ((Create_initial backing_data sink)\<lparr>errors := sink'\<rparr>))"
    unfolding sink_blind_def by blast
  then have same: "same_run
      (run_steps (Create_steps env options) (Create_initial backing_data sink))
      (run_steps (Create_steps env options) (Create_initial backing_data sink'))"
    by (simp add: Create_initial_def)
  show ?thesis
  proof (cases "run_steps (Create_steps env options) (Create_initial backing_data sink)")
    case (Inl es)
    with same show ?thesis by (auto simp: Create_body_def same_run_def split: sum.splits)
  next
    case (Inr s)
    with same obtain t where
      t: "run_steps (Create_steps env options) (Create_initial backing_data sink') = Inr t"
      and eq: "t = s\<lparr>errors := errors t\<rparr>"
      by (auto simp: same_run_def split: sum.splits)
    from eq have "result t = result (s\<lparr>errors := errors t\<rparr>)" by simp
    then have "result t = result s" by simp
    with Inr t show ?thesis by (simp add: Create_body_def)
  qed
qed

section \<open>The table builder\<close>

lemma insert_records_duplicate:
  "\<not> distinct (map fst records) \<or> fst ` set records \<inter> dom table \<noteq> {} \<Longrightarrow>
   insert_records records table = Inl DuplicateExtension"
proof (induction records arbitrary: table)
  case Nil
  then show ?case by simp
next
  case (Cons r records)
  obtain oid ext where r: "r = (oid, ext)" by (cases r)
  show ?case
  proof (cases "table oid")
    case (Some found)
    with r show ?thesis by simp
  next
    case None
    with Cons.prems r
    have "\<not> distinct (map fst records) \<or> fst ` set records \<inter> dom (table(oid \<mapsto> ext)) \<noteq> {}"
      by (auto simp: dom_def)
    from Cons.IH [OF this]
    have "insert_records records (table(oid \<mapsto> ext)) = Inl DuplicateExtension" .
    with None r show ?thesis by (simp del: fun_upd_apply)
  qed
qed

lemma insert_records_lookup:
  "insert_records records table = Inr table' \<Longrightarrow>
   (\<forall>(oid, ext) \<in> set records. table' oid = Some ext) \<and>
   (\<forall>oid. oid \<notin> fst ` set records \<longrightarrow> table' oid = table oid)"
proof (induction records arbitrary: table)
  case Nil
  then show ?case by simp
next
  case (Cons r records)
  obtain oid ext where r: "r = (oid, ext)" by (cases r)
  from Cons.prems r have fresh: "table oid = None"
    and rest: "insert_records records (table(oid \<mapsto> ext)) = Inr table'"
    by (auto split: if_splits)
  from Cons.IH [OF rest] have
    ih1: "\<forall>(oid', ext') \<in> set records. table' oid' = Some ext'" and
    ih2: "\<forall>oid'. oid' \<notin> fst ` set records \<longrightarrow> table' oid' = (table(oid \<mapsto> ext)) oid'"
    by blast+
  have "oid \<notin> fst ` set records"
  proof
    assume "oid \<in> fst ` set records"
    then have "fst ` set records \<inter> dom (table(oid \<mapsto> ext)) \<noteq> {}" by auto
    then have "insert_records records (table(oid \<mapsto> ext)) = Inl DuplicateExtension"
      by (intro insert_records_duplicate) simp
    with rest show False by simp
  qed
  with ih2 have "table' oid = Some ext" by simp
  with ih1 ih2 r show ?case by auto
qed

section \<open>The claims\<close>

text \<open>
  C1, as the code has it. Take an input that decodes up to the extensions with an empty
  subject value. With no extensions region, \<open>Create\<close> returns an object. With an extensions
  region whose table is built: when subjectAltName is absent and no recognized extension is
  malformed, \<open>Create\<close> returns an object; when subjectAltName is present and not critical,
  and neither it nor an extension of the three blocks before it is malformed, \<open>Create\<close>
  returns no object and the last identifier it adds to the sink is
  \<open>kSubjectAltNameNotCritical\<close>; when subjectAltName is present and critical and no
  recognized extension is malformed, \<open>Create\<close> returns an object. The test of the subject
  stands inside the subjectAltName block, so it is not made when the extension is absent.
\<close>

theorem Create_empty_subject:
  assumes "parses_before_extensions env backing_data options parsed_tbs []"
  shows "(extensions_tlv parsed_tbs = None \<longrightarrow>
            fst (Create env backing_data options errors_ptr) \<noteq> None) \<and>
         (\<forall>region table.
            extensions_tlv parsed_tbs = Some region \<and> ParseExtensions env region = Some table \<longrightarrow>
              (table (kSubjectAltNameOid env) = None \<and>
               list_all (\<lambda>k. \<not> malformed env table k) dispatch_order \<longrightarrow>
                 fst (Create env backing_data options errors_ptr) \<noteq> None) \<and>
              (\<forall>ext. table (kSubjectAltNameOid env) = Some ext \<and> \<not> critical ext \<and>
                     list_all (\<lambda>k. \<not> malformed env table k)
                       [BasicConstraints, KeyUsage, ExtendedKeyUsage, SubjectAltName] \<longrightarrow>
                 fst (Create env backing_data options errors_ptr) = None \<and>
                 (\<exists>added. Create env backing_data options (Some sink) =
                            (None, Some (sink @ added @ [kSubjectAltNameNotCritical])))) \<and>
              (\<forall>ext. table (kSubjectAltNameOid env) = Some ext \<and> critical ext \<and>
                     list_all (\<lambda>k. \<not> malformed env table k) dispatch_order \<longrightarrow>
                 fst (Create env backing_data options errors_ptr) \<noteq> None))"
proof (intro conjI impI allI)
  assume "extensions_tlv parsed_tbs = None"
  with assms have "\<exists>created sink'. Create_body env backing_data options sink = (Some created, sink')"
    for sink
    using Create_body_no_region [of env backing_data options parsed_tbs "[]" sink] by blast
  then show "fst (Create env backing_data options errors_ptr) \<noteq> None"
    by (rule Create_succeeds)
next
  fix region table
  assume tab: "extensions_tlv parsed_tbs = Some region \<and> ParseExtensions env region = Some table"
  assume "table (kSubjectAltNameOid env) = None \<and>
          list_all (\<lambda>k. \<not> malformed env table k) dispatch_order"
  then have "first_failure env [] table dispatch_order = None"
    by (simp add: no_failure_without_san)
  with assms tab
  have "\<exists>created sink'. Create_body env backing_data options sink = (Some created, sink')" for sink
    using Create_body_no_failure [of env backing_data options parsed_tbs "[]" region table sink]
    by blast
  then show "fst (Create env backing_data options errors_ptr) \<noteq> None"
    by (rule Create_succeeds)
next
  fix region table ext
  assume tab: "extensions_tlv parsed_tbs = Some region \<and> ParseExtensions env region = Some table"
  assume "table (kSubjectAltNameOid env) = Some ext \<and> critical ext \<and>
          list_all (\<lambda>k. \<not> malformed env table k) dispatch_order"
  then have "first_failure env [] table dispatch_order = None"
    by (simp add: no_failure_with_critical_san)
  with assms tab
  have "\<exists>created sink'. Create_body env backing_data options sink = (Some created, sink')" for sink
    using Create_body_no_failure [of env backing_data options parsed_tbs "[]" region table sink]
    by blast
  then show "fst (Create env backing_data options errors_ptr) \<noteq> None"
    by (rule Create_succeeds)
next
  fix region table ext
  assume tab: "extensions_tlv parsed_tbs = Some region \<and> ParseExtensions env region = Some table"
  assume "table (kSubjectAltNameOid env) = Some ext \<and> \<not> critical ext \<and>
          list_all (\<lambda>k. \<not> malformed env table k)
            [BasicConstraints, KeyUsage, ExtendedKeyUsage, SubjectAltName]"
  then have "first_failure env [] table dispatch_order = Some kSubjectAltNameNotCritical"
    by (simp add: failure_with_non_critical_san)
  with assms tab
  have fails: "\<exists>added. Create_body env backing_data options sink' =
                  (None, sink' @ added @ [kSubjectAltNameNotCritical])" for sink'
    using Create_body_first_failure
            [of env backing_data options parsed_tbs "[]" region table kSubjectAltNameNotCritical sink']
    by blast
  from Create_fails_with [OF fails]
  show "fst (Create env backing_data options errors_ptr) = None"
    and "\<exists>added. Create env backing_data options (Some sink) =
                   (None, Some (sink @ added @ [kSubjectAltNameNotCritical]))"
    by blast+
qed

theorem Create_empty_subject_witness:
  "parses_before_extensions (example_collaborators empty_subject (Some non_critical_san))
     [0x30] ()
     \<lparr>subject_tlv = empty_subject, issuer_tlv = [0x30, 0x02, 0x31, 0x00],
      extensions_tlv = Some [0xA3]\<rparr> [] \<and>
   fst (Create (example_collaborators empty_subject (Some only_key_usage)) [0x30] () None)
     \<noteq> None \<and>
   (\<exists>added.
      Create (example_collaborators empty_subject (Some non_critical_san)) [0x30] () (Some []) =
        (None, Some (added @ [kSubjectAltNameNotCritical]))) \<and>
   fst (Create (example_collaborators empty_subject (Some critical_san)) [0x30] () None)
     \<noteq> None"
proof -
  let ?tbs = "\<lparr>subject_tlv = empty_subject, issuer_tlv = [0x30, 0x02, 0x31, 0x00],
               extensions_tlv = Some [0xA3]\<rparr>"
  let ?ku = "\<lparr>value = [0x03, 0x02, 0x05, 0xA0], critical = True\<rparr>"
  have pre: "parses_before_extensions (example_collaborators empty_subject (Some records))
               [0x30] () ?tbs []" for records
    by (simp add: parses_before_extensions_def example_defs)
  have region: "extensions_tlv ?tbs = Some [0xA3]" by simp
  \<comment> \<open>the extension is absent\<close>
  let ?env1 = "example_collaborators empty_subject (Some only_key_usage)"
  let ?table1 = "[[0x55, 0x1D, 0x0F] \<mapsto> ?ku]"
  have tab1: "ParseExtensions ?env1 [0xA3] = Some ?table1"
    by (simp add: example_defs only_key_usage_def)
  have absent: "?table1 (kSubjectAltNameOid ?env1) = None"
    by (simp add: example_defs)
  have ok1: "list_all (\<lambda>k. \<not> malformed ?env1 ?table1 k) dispatch_order"
    by (simp add: malformed_def dispatch_order_def example_defs)
  from Create_empty_subject [OF pre, of only_key_usage None "[]"] region tab1 absent ok1
  have first: "fst (Create ?env1 [0x30] () None) \<noteq> None" by blast
  \<comment> \<open>the extension is present and not critical\<close>
  let ?env2 = "example_collaborators empty_subject (Some non_critical_san)"
  let ?san2 = "\<lparr>value = [0x30, 0x00], critical = False\<rparr>"
  let ?table2 = "[[0x55, 0x1D, 0x0F] \<mapsto> ?ku, [0x55, 0x1D, 0x11] \<mapsto> ?san2]"
  have tab2: "ParseExtensions ?env2 [0xA3] = Some ?table2"
    by (simp add: example_defs non_critical_san_def)
  have present2: "?table2 (kSubjectAltNameOid ?env2) = Some ?san2"
    by (simp add: example_defs)
  have flag2: "\<not> critical ?san2" by simp
  have ok2: "list_all (\<lambda>k. \<not> malformed ?env2 ?table2 k)
               [BasicConstraints, KeyUsage, ExtendedKeyUsage, SubjectAltName]"
    by (simp add: malformed_def example_defs)
  from Create_empty_subject [OF pre, of non_critical_san None "[]"] region tab2 present2 flag2 ok2
  have "\<exists>added. Create ?env2 [0x30] () (Some []) =
                  (None, Some ([] @ added @ [kSubjectAltNameNotCritical]))"
    by blast
  then have second: "\<exists>added. Create ?env2 [0x30] () (Some []) =
                       (None, Some (added @ [kSubjectAltNameNotCritical]))"
    by simp
  \<comment> \<open>the extension is present and critical\<close>
  let ?env3 = "example_collaborators empty_subject (Some critical_san)"
  let ?san3 = "\<lparr>value = [0x30, 0x00], critical = True\<rparr>"
  let ?table3 = "[[0x55, 0x1D, 0x0F] \<mapsto> ?ku, [0x55, 0x1D, 0x11] \<mapsto> ?san3]"
  have tab3: "ParseExtensions ?env3 [0xA3] = Some ?table3"
    by (simp add: example_defs critical_san_def)
  have present3: "?table3 (kSubjectAltNameOid ?env3) = Some ?san3"
    by (simp add: example_defs)
  have flag3: "critical ?san3" by simp
  have ok3: "list_all (\<lambda>k. \<not> malformed ?env3 ?table3 k) dispatch_order"
    by (simp add: malformed_def dispatch_order_def example_defs)
  from Create_empty_subject [OF pre, of critical_san None "[]"] region tab3 present3 flag3 ok3
  have third: "fst (Create ?env3 [0x30] () None) \<noteq> None" by blast
  from pre [of non_critical_san] first second third show ?thesis by blast
qed

text \<open>
  C1 as stated fails where the extension is absent: with an empty subject and no extensions
  region, and with an empty subject and an extensions region that holds key usage only,
  \<open>Create\<close> returns an object and adds nothing to the sink.
\<close>

theorem Create_empty_subject_counterexample:
  "GetSequenceValue (example_collaborators empty_subject None) empty_subject = Some [] \<and>
   fst (Create (example_collaborators empty_subject None) [0x30] () (Some [])) \<noteq> None \<and>
   snd (Create (example_collaborators empty_subject None) [0x30] () (Some [])) = Some [] \<and>
   kSubjectAltNameOid (example_collaborators empty_subject (Some only_key_usage))
     \<notin> fst ` set only_key_usage \<and>
   fst (Create (example_collaborators empty_subject (Some only_key_usage)) [0x30] () (Some []))
     \<noteq> None \<and>
   snd (Create (example_collaborators empty_subject (Some only_key_usage)) [0x30] () (Some []))
     = Some []"
  by (simp add: Create_eval only_key_usage_def)

text \<open>
  C2, as the code has it. Take an input whose TBS certificate decodes and whose extensions
  region holds two records with the same identifier bytes, whatever their criticality flags
  and values and whichever extension it is. The table builder fails with
  \<open>DuplicateExtension\<close> and \<open>Create\<close> returns no object. When the input decodes up to the
  extensions, the last identifier \<open>Create\<close> adds to the sink is \<open>kFailedParsingExtensions\<close>,
  the spec's \<open>MalformedExtensions\<close>: the builder is not handed the sink and returns a
  boolean.
\<close>

theorem Create_duplicate_extension:
  assumes "decodes_tbs env backing_data options parsed_tbs"
    and "extensions_tlv parsed_tbs = Some region"
    and "ParseExtensions env region = table_of (ExtensionTableBuilder read_records region)"
    and "read_records region = Some records"
    and "\<not> distinct (map fst records)"
  shows "ExtensionTableBuilder read_records region = Inl DuplicateExtension \<and>
         fst (Create env backing_data options errors_ptr) = None \<and>
         (parses_before_extensions env backing_data options parsed_tbs subject \<longrightarrow>
            (\<exists>added. Create env backing_data options (Some sink) =
                       (None, Some (sink @ added @ [kFailedParsingExtensions]))))"
proof -
  from assms(4,5) have built: "ExtensionTableBuilder read_records region = Inl DuplicateExtension"
    by (simp add: ExtensionTableBuilder_def insert_records_duplicate)
  with assms(3) have rejected: "ParseExtensions env region = None"
    by (simp add: table_of_def)
  have "fst (Create_body env backing_data options sink0) = None"
    if "parses_before_extensions env backing_data options parsed_tbs subject0" for subject0 sink0
    using Create_body_table_rejected [OF that assms(2) rejected, of sink0] by auto
  with assms(1) have none: "fst (Create env backing_data options errors_ptr) = None"
    by (rule Create_no_object)
  have "\<exists>added. Create env backing_data options (Some sink) =
                  (None, Some (sink @ added @ [kFailedParsingExtensions]))"
    if "parses_before_extensions env backing_data options parsed_tbs subject"
    using Create_fails_with [OF Create_body_table_rejected [OF that assms(2) rejected]]
    by blast
  with built none show ?thesis by blast
qed

theorem Create_duplicate_extension_witness:
  "\<not> distinct (map fst duplicate_basic_constraints) \<and>
   fst (Create (example_collaborators some_subject (Some duplicate_basic_constraints))
          [0x30] () None) = None \<and>
   (\<exists>added.
      Create (example_collaborators some_subject (Some duplicate_basic_constraints))
          [0x30] () (Some [kCollaboratorError ''earlier'']) =
        (None, Some ([kCollaboratorError ''earlier''] @ added @ [kFailedParsingExtensions])))"
proof -
  let ?env = "example_collaborators some_subject (Some duplicate_basic_constraints)"
  let ?tbs = "\<lparr>subject_tlv = some_subject, issuer_tlv = [0x30, 0x02, 0x31, 0x00],
               extensions_tlv = Some [0xA3]\<rparr>"
  have pre: "parses_before_extensions ?env [0x30] () ?tbs [0x31, 0x00]"
    by (simp add: parses_before_extensions_def example_defs)
  have dec: "decodes_tbs ?env [0x30] () ?tbs"
    by (simp add: decodes_tbs_def example_defs)
  have region: "extensions_tlv ?tbs = Some [0xA3]" by simp
  have dup: "\<not> distinct (map fst duplicate_basic_constraints)"
    by (simp add: duplicate_basic_constraints_def)
  have tab: "ParseExtensions ?env [0xA3] =
               table_of (ExtensionTableBuilder (\<lambda>_. Some duplicate_basic_constraints) [0xA3])"
    by (simp add: example_collaborators_def)
  have records: "(\<lambda>_. Some duplicate_basic_constraints) [0xA3 :: 8 word] =
                   Some duplicate_basic_constraints"
    by simp
  note inst = Create_duplicate_extension
                [OF dec region tab records dup, of None "[0x31, 0x00]" "[kCollaboratorError ''earlier'']"]
  from inst have "fst (Create ?env [0x30] () None) = None" by blast
  moreover from inst pre
  have "\<exists>added. Create ?env [0x30] () (Some [kCollaboratorError ''earlier'']) =
          (None, Some ([kCollaboratorError ''earlier''] @ added @ [kFailedParsingExtensions]))"
    by blast
  ultimately show ?thesis using dup by blast
qed

text \<open>
  C2 as stated fails: on two basic constraints entries with differing values the builder
  fails with \<open>DuplicateExtension\<close>, and what \<open>Create\<close> records is \<open>kFailedParsingExtensions\<close>,
  whose kind is \<open>MalformedExtensions\<close>.
\<close>

theorem Create_duplicate_extension_counterexample:
  "insert_records duplicate_basic_constraints Map.empty = Inl DuplicateExtension \<and>
   Create (example_collaborators some_subject (Some duplicate_basic_constraints))
       [0x30] () (Some []) = (None, Some [kFailedParsingExtensions]) \<and>
   error_kind kFailedParsingExtensions = Some MalformedExtensions \<and>
   error_kind kFailedParsingExtensions \<noteq> Some DuplicateExtension"
  by (simp add: Create_eval duplicate_basic_constraints_def)

text \<open>
  C3, as the code has it. Take an input whose TBS certificate decodes, whose table is built,
  and in which one of the twelve recognized extensions is present with a value that its
  sub-parser rejects, whatever its criticality flag. Then \<open>Create\<close> returns no object. When
  the input decodes up to the extensions and no block before the extension's own stops the
  construction, the last identifier added to the sink is the one of that extension.
\<close>

theorem Create_malformed_extension:
  assumes "decodes_tbs env backing_data options parsed_tbs"
    and "extensions_tlv parsed_tbs = Some region"
    and "ParseExtensions env region = Some table"
    and "table (oid_of env k) = Some ext"
    and "sub_parser_fails env k ext"
  shows "fst (Create env backing_data options errors_ptr) = None \<and>
         (parses_before_extensions env backing_data options parsed_tbs subject \<and>
          first_failure env subject table (takeWhile (\<lambda>k'. k' \<noteq> k) dispatch_order) = None \<longrightarrow>
            (\<exists>added. Create env backing_data options (Some sink) =
                       (None, Some (sink @ added @ [error_of k]))))"
proof -
  from assms(4,5) have fails: "block_failure env subject0 table k = Some (error_of k)"
    for subject0
    by (simp add: block_failure_def)
  have "fst (Create_body env backing_data options sink0) = None"
    if pre: "parses_before_extensions env backing_data options parsed_tbs subject0"
    for subject0 sink0
  proof -
    from fails [of subject0] in_dispatch_order [of k]
    have "first_failure env subject0 table dispatch_order \<noteq> None"
      by (auto simp: first_failure_None_iff)
    then obtain e where "first_failure env subject0 table dispatch_order = Some e" by blast
    from Create_body_first_failure [OF pre assms(2,3) this, of sink0] show ?thesis by auto
  qed
  with assms(1) have none: "fst (Create env backing_data options errors_ptr) = None"
    by (rule Create_no_object)
  have "\<exists>added. Create env backing_data options (Some sink) =
                  (None, Some (sink @ added @ [error_of k]))"
    if pre: "parses_before_extensions env backing_data options parsed_tbs subject"
      and earlier: "first_failure env subject table (takeWhile (\<lambda>k'. k' \<noteq> k) dispatch_order) = None"
  proof -
    from in_dispatch_order [of k] obtain later where
      "dropWhile (\<lambda>k'. k' \<noteq> k) dispatch_order = k # later"
      by (metis (mono_tags, lifting) dropWhile_eq_Nil_conv hd_dropWhile list.exhaust_sel)
    then have "dispatch_order = takeWhile (\<lambda>k'. k' \<noteq> k) dispatch_order @ k # later"
      by (metis takeWhile_dropWhile_id)
    then have "first_failure env subject table dispatch_order =
                 first_failure env subject table
                   (takeWhile (\<lambda>k'. k' \<noteq> k) dispatch_order @ k # later)"
      by simp
    with earlier fails [of subject]
    have "first_failure env subject table dispatch_order = Some (error_of k)"
      by (simp add: first_failure_append)
    from Create_fails_with [OF Create_body_first_failure [OF pre assms(2,3) this]]
    show ?thesis by blast
  qed
  with none show ?thesis by blast
qed

theorem Create_malformed_extension_witness:
  "sub_parser_fails (example_collaborators some_subject (Some malformed_key_usage)) KeyUsage
     \<lparr>value = [], critical = False\<rparr> \<and>
   fst (Create (example_collaborators some_subject (Some malformed_key_usage)) [0x30] () None)
     = None \<and>
   (\<exists>added.
      Create (example_collaborators some_subject (Some malformed_key_usage)) [0x30] () (Some []) =
        (None, Some (added @ [kFailedParsingKeyUsage])))"
proof -
  let ?env = "example_collaborators some_subject (Some malformed_key_usage)"
  let ?tbs = "\<lparr>subject_tlv = some_subject, issuer_tlv = [0x30, 0x02, 0x31, 0x00],
               extensions_tlv = Some [0xA3]\<rparr>"
  let ?table = "[[0x55, 0x1D, 0x13] \<mapsto> \<lparr>value = [0x30, 0x00], critical = True\<rparr>,
                 [0x55, 0x1D, 0x0F] \<mapsto> \<lparr>value = [], critical = False\<rparr>]"
  have pre: "parses_before_extensions ?env [0x30] () ?tbs [0x31, 0x00]"
    by (simp add: parses_before_extensions_def example_defs)
  have dec: "decodes_tbs ?env [0x30] () ?tbs"
    by (simp add: decodes_tbs_def example_defs)
  have region: "extensions_tlv ?tbs = Some [0xA3]" by simp
  have tab: "ParseExtensions ?env [0xA3] = Some ?table"
    by (simp add: example_defs malformed_key_usage_def)
  have present: "?table (oid_of ?env KeyUsage) = Some \<lparr>value = [], critical = False\<rparr>"
    by (simp add: example_defs)
  have fails: "sub_parser_fails ?env KeyUsage \<lparr>value = [], critical = False\<rparr>"
    by (simp add: example_defs)
  have earlier: "first_failure ?env [0x31, 0x00] ?table
                   (takeWhile (\<lambda>k'. k' \<noteq> KeyUsage) dispatch_order) = None"
    by (simp add: dispatch_order_def block_failure_def example_defs)
  note inst = Create_malformed_extension
                [OF dec region tab present fails, of None "[0x31, 0x00]" "[]"]
  from inst have none: "fst (Create ?env [0x30] () None) = None" by (rule conjunct1)
  from inst pre earlier
  have "\<exists>added. Create ?env [0x30] () (Some []) = (None, Some ([] @ added @ [error_of KeyUsage]))"
    by blast
  then have "\<exists>added. Create ?env [0x30] () (Some []) = (None, Some (added @ [kFailedParsingKeyUsage]))"
    by simp
  with fails none show ?thesis by blast
qed

text \<open>
  C3 as stated fails where an earlier block stops the construction. With an empty subject,
  a well-formed subjectAltName that is not critical and malformed name constraints, the only
  malformed extension is name constraints and the identifier recorded is
  \<open>kSubjectAltNameNotCritical\<close>. With malformed key usage and a malformed authority key
  identifier, the identifier recorded is the one of key usage, not the one of the authority
  key identifier.
\<close>

theorem Create_malformed_extension_counterexample:
  "malformed_extensions (example_collaborators empty_subject (Some san_then_malformed)) [0xA3] =
     [NameConstraints] \<and>
   Create (example_collaborators empty_subject (Some san_then_malformed)) [0x30] () (Some []) =
     (None, Some [kSubjectAltNameNotCritical]) \<and>
   kSubjectAltNameNotCritical \<noteq> error_of NameConstraints \<and>
   malformed_extensions (example_collaborators some_subject (Some two_malformed)) [0xA3] =
     [KeyUsage, AuthorityKeyIdentifier] \<and>
   Create (example_collaborators some_subject (Some two_malformed)) [0x30] () (Some []) =
     (None, Some [kFailedParsingKeyUsage]) \<and>
   kFailedParsingKeyUsage \<noteq> error_of AuthorityKeyIdentifier"
  by (simp add: Create_eval malformed_extensions_def table_eval san_then_malformed_def
        two_malformed_def)

text \<open>
  C4. Take an input whose envelope, TBS certificate, signature algorithm and names all decode
  and whose TBS certificate has no extensions region. \<open>Create\<close> returns an object in which no
  recognized extension is marked present (the code has twelve: eight \<open>has_\<close> members and four
  pointer or optional members), the table is empty, and \<open>GetExtension\<close> returns false for
  every identifier.
\<close>

theorem Create_without_extensions:
  assumes "parses_before_extensions env backing_data options parsed_tbs subject"
    and "extensions_tlv parsed_tbs = None"
  shows "\<exists>created sink'. Create env backing_data options errors_ptr = (Some created, sink') \<and>
           no_extension_present created \<and> extensions created = Map.empty \<and>
           (\<forall>extension_oid parsed_extension.
              \<not> fst (GetExtension created extension_oid parsed_extension))"
proof -
  from Create_body_no_region [OF assms] obtain created sink' where
    body: "Create_body env backing_data options
             (case errors_ptr of None \<Rightarrow> unused_errors | Some sink \<Rightarrow> sink) = (Some created, sink')"
    and facts: "tbs created = parsed_tbs" "no_extension_present created"
      "extensions created = Map.empty"
    by blast
  from facts(1) assms(2)
  have "\<forall>extension_oid parsed_extension.
          \<not> fst (GetExtension created extension_oid parsed_extension)"
    by (simp add: GetExtension_def)
  with body facts show ?thesis by (simp add: Create_eq)
qed

theorem Create_without_extensions_witness:
  "parses_before_extensions (example_collaborators some_subject None) [0x30] ()
     \<lparr>subject_tlv = some_subject, issuer_tlv = [0x30, 0x02, 0x31, 0x00], extensions_tlv = None\<rparr>
     [0x31, 0x00] \<and>
   (\<exists>created sink'.
      Create (example_collaborators some_subject None) [0x30] () None = (Some created, sink') \<and>
      no_extension_present created \<and> extensions created = Map.empty \<and>
      (\<forall>extension_oid parsed_extension.
         \<not> fst (GetExtension created extension_oid parsed_extension)))"
proof -
  have pre: "parses_before_extensions (example_collaborators some_subject None) [0x30] ()
     \<lparr>subject_tlv = some_subject, issuer_tlv = [0x30, 0x02, 0x31, 0x00], extensions_tlv = None\<rparr>
     [0x31, 0x00]"
    by (simp add: parses_before_extensions_def example_defs)
  from pre Create_without_extensions [OF pre, of None] show ?thesis by simp
qed

text \<open>
  C5. For every buffer and options, \<open>Create\<close> returns the same with a sink supplied as with
  the sink omitted: \<open>nullptr\<close> both times, or two objects equal member for member. (A
  collaborator that is handed the sink appends to it and does not read it.)
\<close>

theorem Create_ignores_sink:
  "fst (Create env backing_data options (Some sink)) =
   fst (Create env backing_data options None)"
  by (simp add: Create_eq Create_body_sink_blind [of env backing_data options sink unused_errors])

text \<open>
  C6. Two calls of \<open>Create\<close> on the same bytes and options, the second made with the sink as
  the first left it, return the same: \<open>nullptr\<close> both times, or two objects equal member for
  member.
\<close>

theorem Create_twice:
  "fst (Create env backing_data options (snd (Create env backing_data options errors_ptr))) =
   fst (Create env backing_data options errors_ptr)"
  by (cases errors_ptr) (simp_all add: Create_eq Create_body_sink_blind [of env backing_data options _ _])

text \<open>
  C7. Take an object that \<open>Create\<close> returned, with an extensions region. Its table is the one
  \<open>ParseExtensions\<close> built from the region, and \<open>GetExtension\<close> on an identifier of the table
  returns true and the stored entry. When the table is the builder's, then for every record
  of the region, recognized or not, \<open>GetExtension\<close> on the record's identifier returns true
  and the record's value bytes and criticality flag. \<open>GetExtension\<close> is a function of the
  object and returns no object: it does not parse and cannot change the table.
\<close>

theorem GetExtension_returns_input:
  assumes "Create env backing_data options errors_ptr = (Some created, sink')"
    and "extensions_tlv (tbs created) = Some region"
  shows "ParseExtensions env region = Some (extensions created) \<and>
         (\<forall>extension_oid ext.
            extensions created extension_oid = Some ext \<longrightarrow>
              GetExtension created extension_oid parsed_extension = (True, ext)) \<and>
         (ParseExtensions env region = table_of (ExtensionTableBuilder read_records region) \<and>
          read_records region = Some records \<longrightarrow>
            (\<forall>(extension_oid, ext) \<in> set records.
               GetExtension created extension_oid parsed_extension = (True, ext)))"
proof -
  from assms(1) obtain sink'' where
    "Create_body env backing_data options
       (case errors_ptr of None \<Rightarrow> unused_errors | Some sink \<Rightarrow> sink) = (Some created, sink'')"
    by (cases "Create_body env backing_data options
                 (case errors_ptr of None \<Rightarrow> unused_errors | Some sink \<Rightarrow> sink)")
       (simp add: Create_eq)
  from Create_body_success_table [OF this assms(2)]
  have stored: "ParseExtensions env region = Some (extensions created)" .
  from assms(2)
  have lookup: "GetExtension created extension_oid parsed_extension = (True, ext)"
    if "extensions created extension_oid = Some ext" for extension_oid ext
    using that by (simp add: GetExtension_def)
  have "\<forall>(extension_oid, ext) \<in> set records.
          GetExtension created extension_oid parsed_extension = (True, ext)"
    if builder: "ParseExtensions env region = table_of (ExtensionTableBuilder read_records region)"
      and records: "read_records region = Some records"
  proof -
    from stored builder records
    have "insert_records records Map.empty = Inr (extensions created)"
      by (simp add: table_of_def ExtensionTableBuilder_def split: sum.splits)
    from insert_records_lookup [OF this]
    have "\<forall>(extension_oid, ext) \<in> set records. extensions created extension_oid = Some ext"
      by blast
    with lookup show ?thesis by blast
  qed
  with stored lookup show ?thesis by blast
qed

theorem GetExtension_returns_input_witness:
  "\<exists>created sink'.
     Create (example_collaborators some_subject (Some three_extensions)) [0x30] () None =
       (Some created, sink') \<and>
     extensions_tlv (tbs created) = Some [0xA3] \<and>
     GetExtension created [0x2A, 0x03, 0x04] ParsedExtension_default =
       (True, \<lparr>value = [0x05, 0x00], critical = True\<rparr>)"
proof -
  let ?env = "example_collaborators some_subject (Some three_extensions)"
  define created where "created = the (fst (Create ?env [0x30] () None))"
  have run: "Create ?env [0x30] () None = (Some created, None)"
    unfolding created_def by (simp add: Create_eval three_extensions_def)
  have region: "extensions_tlv (tbs created) = Some [0xA3]"
    unfolding created_def by (simp add: Create_eval three_extensions_def)
  have tab: "ParseExtensions ?env [0xA3] =
               table_of (ExtensionTableBuilder (\<lambda>_. Some three_extensions) [0xA3])"
    by (simp add: example_collaborators_def)
  have records: "(\<lambda>_. Some three_extensions) [0xA3 :: 8 word] = Some three_extensions"
    by simp
  have mem: "([0x2A, 0x03, 0x04], \<lparr>value = [0x05, 0x00], critical = True\<rparr>) \<in> set three_extensions"
    by (simp add: three_extensions_def)
  from GetExtension_returns_input
         [OF run region, of ParsedExtension_default "\<lambda>_. Some three_extensions" three_extensions]
       tab records
  have "\<forall>(extension_oid, ext) \<in> set three_extensions.
          GetExtension created extension_oid ParsedExtension_default = (True, ext)"
    by blast
  with mem have "GetExtension created [0x2A, 0x03, 0x04] ParsedExtension_default =
                   (True, \<lparr>value = [0x05, 0x00], critical = True\<rparr>)"
    by blast
  with run region show ?thesis by blast
qed

text \<open>
  C8. When \<open>Create\<close> returns no object, \<open>CreateAndAddToVector\<close> returns false and the chain is
  as it was; when \<open>Create\<close> returns an object, \<open>CreateAndAddToVector\<close> returns true and the
  chain is the old one with that object appended. The sink is as \<open>Create\<close> left it.
\<close>

theorem CreateAndAddToVector_chain:
  "(fst (Create env cert_data_arg options errors_ptr) = None \<longrightarrow>
      CreateAndAddToVector env cert_data_arg options chain errors_ptr =
        (False, chain, snd (Create env cert_data_arg options errors_ptr))) \<and>
   (\<forall>created. fst (Create env cert_data_arg options errors_ptr) = Some created \<longrightarrow>
      CreateAndAddToVector env cert_data_arg options chain errors_ptr =
        (True, chain @ [created], snd (Create env cert_data_arg options errors_ptr)))"
  by (auto simp: CreateAndAddToVector_def split: prod.splits option.splits)

theorem CreateAndAddToVector_chain_witness:
  "fst (Create (example_collaborators some_subject None) [] () (Some [])) = None \<and>
   CreateAndAddToVector (example_collaborators some_subject None) [] ()
       [ParsedCertificate_default] (Some []) =
     (False, [ParsedCertificate_default],
      Some [kCollaboratorError ''empty input'', kFailedParsingCertificate]) \<and>
   (\<exists>created.
      fst (Create (example_collaborators some_subject None) [0x30] () (Some [])) = Some created \<and>
      CreateAndAddToVector (example_collaborators some_subject None) [0x30] ()
          [ParsedCertificate_default] (Some []) =
        (True, [ParsedCertificate_default, created], Some []))"
proof -
  let ?env = "example_collaborators some_subject None"
  have bad: "Create ?env [] () (Some []) =
               (None, Some [kCollaboratorError ''empty input'', kFailedParsingCertificate])"
    by (simp add: Create_eval)
  obtain created where good: "Create ?env [0x30] () (Some []) = (Some created, Some [])"
    by (simp add: Create_eval)
  from bad good
    CreateAndAddToVector_chain [of ?env "[]" "()" "Some []" "[ParsedCertificate_default]"]
    CreateAndAddToVector_chain [of ?env "[0x30]" "()" "Some []" "[ParsedCertificate_default]"]
  show ?thesis by simp
qed

text \<open>
  C9. When \<open>GetExtension\<close> returns false because the certificate has an extensions region but
  the identifier is not in the table, the caller's output \<open>ParsedExtension\<close> is reset to the
  default (empty) \<open>ParsedExtension\<close>; when it returns false because the certificate has no
  extensions region at all, the output is left as the caller passed it.
\<close>

theorem GetExtension_false_output:
  "(extensions_tlv (tbs this) \<noteq> None \<and> extensions this extension_oid = None \<longrightarrow>
      GetExtension this extension_oid parsed_extension = (False, ParsedExtension_default)) \<and>
   (extensions_tlv (tbs this) = None \<longrightarrow>
      GetExtension this extension_oid parsed_extension = (False, parsed_extension))"
  by (auto simp: GetExtension_def)

theorem GetExtension_false_output_witness:
  "GetExtension
     (ParsedCertificate_default
        \<lparr>tbs := ParsedTbsCertificate_default\<lparr>extensions_tlv := Some [0x30, 0x00]\<rparr>\<rparr>
        :: nat ParsedCertificate)
     [0x55, 0x1D, 0x13] \<lparr>value = [0x01], critical = True\<rparr>
     = (False, \<lparr>value = [], critical = False\<rparr>) \<and>
   GetExtension (ParsedCertificate_default :: nat ParsedCertificate)
     [0x55, 0x1D, 0x13] \<lparr>value = [0x01], critical = True\<rparr>
     = (False, \<lparr>value = [0x01], critical = True\<rparr>)"
  using GetExtension_false_output
          [of "ParsedCertificate_default
                 \<lparr>tbs := ParsedTbsCertificate_default\<lparr>extensions_tlv := Some [0x30, 0x00]\<rparr>\<rparr>
                 :: nat ParsedCertificate"
              "[0x55, 0x1D, 0x13]" "\<lparr>value = [0x01], critical = True\<rparr>"]
        GetExtension_false_output
          [of "ParsedCertificate_default :: nat ParsedCertificate"
              "[0x55, 0x1D, 0x13]" "\<lparr>value = [0x01], critical = True\<rparr>"]
  by (simp add: ParsedCertificate_default_def ParsedTbsCertificate_default_def
        ParsedExtension_default_def)

text \<open>
  C10, as the code has it. The blocks run in the order basic constraints, key usage,
  extended key usage, subjectAltName, name constraints, authority information access,
  certificate policies, policy constraints, policy mappings, inhibit any policy, subject key
  identifier, authority key identifier. On an input that decodes up to the extensions and
  whose table is built, if some block stops the construction then \<open>Create\<close> returns no object
  and the last identifier added to the sink is the one of the earliest such block in this
  order. A block stops it when its extension is malformed; the subjectAltName block also
  stops it, with \<open>kSubjectAltNameNotCritical\<close>, when the subject is empty and the extension is
  well-formed and not critical.
\<close>

theorem Create_first_failure:
  assumes "parses_before_extensions env backing_data options parsed_tbs subject"
    and "extensions_tlv parsed_tbs = Some region"
    and "ParseExtensions env region = Some table"
    and "first_failure env subject table dispatch_order = Some e"
  shows "extension_steps env = map (block_of env) dispatch_order \<and>
         fst (Create env backing_data options errors_ptr) = None \<and>
         (\<exists>added. Create env backing_data options (Some sink) =
                    (None, Some (sink @ added @ [e])))"
  using Create_fails_with [OF Create_body_first_failure [OF assms]] extension_steps_dispatch
  by blast

theorem Create_first_failure_witness:
  "malformed_extensions (example_collaborators some_subject (Some two_malformed)) [0xA3] =
     [KeyUsage, AuthorityKeyIdentifier] \<and>
   (\<exists>added.
      Create (example_collaborators some_subject (Some two_malformed)) [0x30] () (Some []) =
        (None, Some ([] @ added @ [kFailedParsingKeyUsage])))"
proof -
  let ?env = "example_collaborators some_subject (Some two_malformed)"
  let ?table = "[[0x55, 0x1D, 0x23] \<mapsto> \<lparr>value = [], critical = False\<rparr>,
                 [0x55, 0x1D, 0x0F] \<mapsto> \<lparr>value = [], critical = True\<rparr>,
                 [0x55, 0x1D, 0x13] \<mapsto> \<lparr>value = [0x30, 0x00], critical = True\<rparr>]"
  have pre: "parses_before_extensions ?env [0x30] ()
     \<lparr>subject_tlv = some_subject, issuer_tlv = [0x30, 0x02, 0x31, 0x00],
      extensions_tlv = Some [0xA3]\<rparr> [0x31, 0x00]"
    by (simp add: parses_before_extensions_def example_defs)
  have tab: "ParseExtensions ?env [0xA3] = Some ?table"
    by (simp add: example_defs two_malformed_def)
  have first: "first_failure ?env [0x31, 0x00] ?table dispatch_order = Some kFailedParsingKeyUsage"
    by (simp add: table_eval example_defs)
  have malformed: "malformed_extensions ?env [0xA3] = [KeyUsage, AuthorityKeyIdentifier]"
    by (simp add: malformed_extensions_def table_eval example_defs two_malformed_def)
  from malformed Create_first_failure [OF pre _ tab first, of "Some []" "[]"]
  show ?thesis by simp
qed

text \<open>
  C10 as stated fails where the subjectAltName test comes first: with an empty subject, a
  well-formed subjectAltName that is not critical, and malformed name constraints and
  authority information access, the earliest malformed extension is name constraints and
  the identifier recorded is \<open>kSubjectAltNameNotCritical\<close>.
\<close>

theorem Create_first_failure_counterexample:
  "malformed_extensions (example_collaborators empty_subject (Some san_then_two_malformed))
     [0xA3] = [NameConstraints, AuthorityInfoAccess] \<and>
   Create (example_collaborators empty_subject (Some san_then_two_malformed)) [0x30] ()
       (Some []) = (None, Some [kSubjectAltNameNotCritical]) \<and>
   kSubjectAltNameNotCritical \<noteq> error_of NameConstraints"
  by (simp add: Create_eval malformed_extensions_def table_eval san_then_two_malformed_def)

end
